theory Spec2Isabelle
  imports Complex_Main
begin

section \<open>Data model\<close>

text \<open>
  Both scripts work on pandas tables. A cell is a Python object; a column (a pandas
  \<open>Series\<close>) is a dtype tag and its values; a table (a \<open>DataFrame\<close>) is a row count
  (the length of its index) and an ordered list of named columns. pandas allows two
  columns of one name, so the columns are an association list, not a map.
  Floating-point numbers are idealised as reals, with NaN a value of its own.
\<close>

datatype pyobj =
    PyInt int
  | PyFloat real
  | PyNaN
  | PyNone
  | PyStr string
  | PyBool bool
  | PyOther nat

datatype width = W8 | W16 | W32 | W64

datatype dtype =
    SInt width
  | UInt width
  | Float32
  | Float64
  | BoolDtype
  | Datetime64
  | ObjectDtype

record series =
  dtype :: dtype
  vals :: "pyobj list"

record dataframe =
  index_len :: nat
  columns :: "(string \<times> series) list"

text \<open>Exceptions are values. Every one modelled here is an instance of Python's
  \<open>Exception\<close>: a class name and a message.\<close>

datatype pyexc = PyExc (exc_class: string) (exc_msg: string)

datatype level = DEBUG | INFO | WARNING | ERROR

type_synonym ref = nat

text \<open>
  The state of a run: the objects on the heap (DataFrames, by reference), the next free
  reference, the records handed to the module's logger, and the stream of numbers the
  global random source of numpy will draw next.
\<close>

record world =
  objs :: "ref \<Rightarrow> dataframe"
  next_ref :: ref
  logged :: "(level \<times> string) list"
  draws :: "nat \<Rightarrow> real"

record namespace =
  debug :: bool

definition logger_info :: "string \<Rightarrow> world \<Rightarrow> world" where
  "logger_info msg st = st\<lparr>logged := logged st @ [(INFO, msg)]\<rparr>"

definition logger_error :: "string \<Rightarrow> world \<Rightarrow> world" where
  "logger_error msg st = st\<lparr>logged := logged st @ [(ERROR, msg)]\<rparr>"

definition alloc :: "dataframe \<Rightarrow> world \<Rightarrow> ref \<times> world" where
  "alloc df st =
     (next_ref st, st\<lparr>objs := (objs st)(next_ref st := df), next_ref := Suc (next_ref st)\<rparr>)"

text \<open>Python's \<open>str\<close> on an integer: decimal digits, with a minus sign if negative.\<close>

definition digit_char :: "nat \<Rightarrow> char" where
  "digit_char d = char_of (48 + d)"

fun str_nat :: "nat \<Rightarrow> string" where
  "str_nat n = (if n < 10 then [digit_char n] else str_nat (n div 10) @ [digit_char (n mod 10)])"

definition str_int :: "int \<Rightarrow> string" where
  "str_int i = (if i < 0 then CHR ''-'' # str_nat (nat (- i)) else str_nat (nat i))"

section \<open>External collaborators\<close>

text \<open>
  An HTML document as BeautifulSoup holds it: a tree of tags (a name, the values of the
  \<open>class\<close> attribute, the children) and strings. The \<open>BeautifulSoup\<close> object is the
  root of the tree.
\<close>

datatype node =
    Tag (tag_name: string) (tag_classes: "string list") (children: "node list")
  | NavigableString string

record response =
  content :: string

text \<open>\<open>df[key]\<close> is a Series when one column bears the name and a DataFrame of the
  columns of that name when several do.\<close>

datatype selection = ASeries series | AFrame dataframe

datatype plt_call =
    Figure "nat \<times> nat"
  | Plot selection selection string
  | Title string
  | XLabel string
  | YLabel string
  | Grid bool
  | XTicks int
  | TightLayout
  | Show

text \<open>The objects whose size the caller chooses: a numpy array of \<open>r\<close> by \<open>c\<close> floats, a
  list of \<open>n\<close> items, a table of \<open>r\<close> rows and \<open>c\<close> columns.\<close>

datatype allocation = ArrayOf nat nat | ListOf nat | FrameOf nat nat

text \<open>
  The third-party functions the scripts call, as parameters: the code is verified for
  every behaviour of them, and a claim that rests on what pandas computes names the
  model of pandas it is proved for. A function of the library that can raise returns
  \<open>Inl\<close> of the exception. \<open>alloc_error\<close> is what the machine answers when asked to
  build an object: the exception raised when it is too large for the address space or
  for the memory at hand (\<open>ValueError\<close> or \<open>MemoryError\<close>), \<open>None\<close> when it is built.
\<close>

record library =
  requests_get :: "string \<Rightarrow> pyexc + response"
  BeautifulSoup :: "string \<Rightarrow> string \<Rightarrow> pyexc + node"
  tag_str :: "node \<Rightarrow> string"
  read_html :: "string \<Rightarrow> pyexc + dataframe list"
  is_numeric_dtype :: "selection \<Rightarrow> bool"
  is_string_dtype :: "selection \<Rightarrow> bool"
  infer_dtype :: "selection \<Rightarrow> pyexc + string"
  to_numeric :: "selection \<Rightarrow> string \<Rightarrow> pyexc + selection"
  astype_str :: "selection \<Rightarrow> pyexc + selection"
  to_datetime :: "selection \<Rightarrow> pyexc + selection"
  truediv :: "selection \<Rightarrow> int \<Rightarrow> pyexc + selection"
  pyplot :: "plt_call \<Rightarrow> pyexc + unit"
  to_string :: "dataframe \<Rightarrow> string"
  alloc_error :: "allocation \<Rightarrow> pyexc option"

text \<open>Sequencing of calls that can raise: the first exception ends the sequence.\<close>

definition seq :: "pyexc + 'a \<Rightarrow> ('a \<Rightarrow> pyexc + 'b) \<Rightarrow> pyexc + 'b" where
  "seq m f = (case m of Inl e \<Rightarrow> Inl e | Inr x \<Rightarrow> f x)"

section \<open>script\_template.py\<close>

text \<open>A numpy array of two dimensions: its shape and its elements in row-major order.\<close>

record ndarray =
  shape :: "nat \<times> nat"
  data :: "real list"

text \<open>
  An object no larger than the default table of five rows and five columns is taken to
  fit on every machine that runs the script; for a larger one the machine decides.
\<close>

definition default_sized :: "allocation \<Rightarrow> bool" where
  "default_sized a =
     (case a of
        ArrayOf r c \<Rightarrow> r \<le> 5 \<and> c \<le> 5
      | ListOf n \<Rightarrow> n \<le> 5
      | FrameOf r c \<Rightarrow> r \<le> 5 \<and> c \<le> 5)"

definition allocate :: "library \<Rightarrow> allocation \<Rightarrow> pyexc option" where
  "allocate L a = (if default_sized a then None else alloc_error L a)"

text \<open>
  \<open>np.random.rand(rows, cols)\<close>: a dimension that is not a 64-bit index, or is
  negative, raises \<open>ValueError\<close>; so does, or raises \<open>MemoryError\<close>, an array that the
  machine cannot hold; otherwise the array is filled, row by row, with the next draws
  of the random source.
\<close>

definition np_random_rand :: "library \<Rightarrow> int \<Rightarrow> int \<Rightarrow> world \<Rightarrow> (pyexc + ndarray) \<times> world" where
  "np_random_rand L rows cols st =
     (if rows < - (2 ^ 63) \<or> 2 ^ 63 \<le> rows \<or> cols < - (2 ^ 63) \<or> 2 ^ 63 \<le> cols
      then (Inl (PyExc ''ValueError'' ''Maximum allowed dimension exceeded''), st)
      else if rows < 0 \<or> cols < 0
      then (Inl (PyExc ''ValueError'' ''negative dimensions are not allowed''), st)
      else case allocate L (ArrayOf (nat rows) (nat cols)) of
             Some e \<Rightarrow> (Inl e, st)
           | None \<Rightarrow>
               (let n = nat rows * nat cols
                in (Inr \<lparr>shape = (nat rows, nat cols), data = map (draws st) [0..<n]\<rparr>,
                    st\<lparr>draws := (\<lambda>i. draws st (i + n))\<rparr>)))"

text \<open>
  \<open>pd.DataFrame(data, columns=names)\<close> on a two-dimensional array: one float64 column
  per array column, \<open>ValueError\<close> when the number of names is not the number of array
  columns, and the machine's exception when the table cannot be held.
\<close>

definition pd_DataFrame :: "library \<Rightarrow> ndarray \<Rightarrow> string list \<Rightarrow> pyexc + dataframe" where
  "pd_DataFrame L a names =
     (case shape a of (r, c) \<Rightarrow>
        (case allocate L (FrameOf r c) of
           Some e \<Rightarrow> Inl e
         | None \<Rightarrow>
             if length names \<noteq> c
             then Inl (PyExc ''ValueError'' ''Shape of passed values does not match the columns'')
             else Inr \<lparr>index_len = r,
                       columns = map (\<lambda>j. (names ! j,
                                            \<lparr>dtype = Float64,
                                             vals = map (\<lambda>i. PyFloat (data a ! (i * c + j))) [0..<r]\<rparr>))
                                     [0..<c]\<rparr>))"

text \<open>
  \<open>generate_random_dataframe(rows=5, cols=5)\<close>. An omitted argument is \<open>None\<close> here and
  takes the default of the signature. The list of column names is built between the
  array and the table.
\<close>

definition generate_random_dataframe ::
  "library \<Rightarrow> int option \<Rightarrow> int option \<Rightarrow> world \<Rightarrow> (pyexc + dataframe) \<times> world" where
  "generate_random_dataframe L rows_arg cols_arg st =
     (let rows = (case rows_arg of None \<Rightarrow> 5 | Some r \<Rightarrow> r);
          cols = (case cols_arg of None \<Rightarrow> 5 | Some c \<Rightarrow> c)
      in case np_random_rand L rows cols st of
           (Inl e, st') \<Rightarrow> (Inl e, st')
         | (Inr a, st') \<Rightarrow>
             (case allocate L (ListOf (nat cols)) of
                Some e \<Rightarrow> (Inl e, st')
              | None \<Rightarrow>
                  (pd_DataFrame L a (map (\<lambda>i. ''Column'' @ str_int (int i + 1)) [0..<nat cols]),
                   st')))"

text \<open>\<open>log_dataframe\<close>: the table's text, as \<open>DataFrame.to_string\<close> renders it, goes to
  the logger at level INFO.\<close>

definition log_dataframe :: "library \<Rightarrow> dataframe \<Rightarrow> world \<Rightarrow> world" where
  "log_dataframe L df st =
     (let df_string = to_string L df
      in logger_info (''DataFrame contents:'' @ [CHR 0x0A] @ df_string) st)"

definition main_script_template ::
  "library \<Rightarrow> namespace \<Rightarrow> world \<Rightarrow> (pyexc + int) \<times> world" where
  "main_script_template L args st =
     (let st1 = logger_info ''Hello world.'' st
      in case generate_random_dataframe L None None st1 of
           (Inl e, st2) \<Rightarrow> (Inl e, st2)
         | (Inr random_df, st2) \<Rightarrow> (Inr 0, log_dataframe L random_df st2))"

section \<open>A model of the pandas functions\<close>

text \<open>
  Some claims rest on what pandas itself computes. These definitions follow pandas 2 on
  the columns this model has; where a function is not modelled on some argument, what
  it does there is a parameter (\<open>rest\<close>). Among the cells, \<open>PyOther\<close> stands for an
  object of a type that \<open>infer_dtype\<close> has no test for.
\<close>

subsection \<open>Predicates on dtypes\<close>

definition is_str :: "pyobj \<Rightarrow> bool" where
  "is_str v = (case v of PyStr s \<Rightarrow> True | _ \<Rightarrow> False)"

definition is_int :: "pyobj \<Rightarrow> bool" where
  "is_int v = (case v of PyInt i \<Rightarrow> True | _ \<Rightarrow> False)"

definition is_float :: "pyobj \<Rightarrow> bool" where
  "is_float v = (case v of PyFloat x \<Rightarrow> True | _ \<Rightarrow> False)"

definition is_bool :: "pyobj \<Rightarrow> bool" where
  "is_bool v = (case v of PyBool b \<Rightarrow> True | _ \<Rightarrow> False)"

definition isna :: "pyobj \<Rightarrow> bool" where
  "isna v = (case v of PyNone \<Rightarrow> True | PyNaN \<Rightarrow> True | _ \<Rightarrow> False)"

text \<open>\<open>pandas.api.types.is_numeric_dtype\<close> looks at the dtype alone: integer, float and
  bool dtypes are numeric, \<open>object\<close> is not, whatever the column holds. A DataFrame has
  no dtype of its own and is not numeric.\<close>

definition pd_is_numeric_dtype :: "selection \<Rightarrow> bool" where
  "pd_is_numeric_dtype sel =
     (case sel of
        ASeries s \<Rightarrow>
          (case dtype s of
             SInt w \<Rightarrow> True
           | UInt w \<Rightarrow> True
           | Float32 \<Rightarrow> True
           | Float64 \<Rightarrow> True
           | BoolDtype \<Rightarrow> True
           | Datetime64 \<Rightarrow> False
           | ObjectDtype \<Rightarrow> False)
      | AFrame f \<Rightarrow> False)"

text \<open>\<open>pandas.api.types.is_string_dtype\<close> on a Series of dtype \<open>object\<close> holds when every
  element is a \<open>str\<close> (earlier versions of pandas answer true for every object column).\<close>

definition pd_is_string_dtype :: "selection \<Rightarrow> bool" where
  "pd_is_string_dtype sel =
     (case sel of
        ASeries s \<Rightarrow> dtype s = ObjectDtype \<and> list_all is_str (vals s)
      | AFrame f \<Rightarrow> False)"

subsection \<open>infer\_dtype\<close>

text \<open>
  \<open>infer_dtype\<close> on the elements of an object column, with the default \<open>skipna=True\<close>.
  The first element that is not missing decides which test is made on the whole
  column. The tests for integers, booleans and text pass over missing values
  (\<open>None\<close>, NaN); the test for floats does not, so that a \<open>None\<close> among floats, which
  is no float, defeats it, while NaN, which is one, does not. A column that fails its
  test is \<open>mixed-integer\<close> when it holds an integer and \<open>mixed\<close> otherwise.
\<close>

definition mixed_kind :: "pyobj list \<Rightarrow> string" where
  "mixed_kind xs = (if list_ex is_int xs then ''mixed-integer'' else ''mixed'')"

definition infer_objects :: "pyobj list \<Rightarrow> string" where
  "infer_objects xs =
     (case filter (\<lambda>v. \<not> isna v) xs of
        [] \<Rightarrow> ''empty''
      | v # rest \<Rightarrow>
          if is_int v then
            (if list_all (\<lambda>y. is_int y \<or> isna y) xs then ''integer''
             else if list_all (\<lambda>y. is_int y \<or> is_float y \<or> isna y) xs
             then ''mixed-integer-float''
             else ''mixed-integer'')
          else if is_float v then
            (if list_all (\<lambda>y. is_float y \<or> y = PyNaN) xs then ''floating''
             else if list_all (\<lambda>y. is_int y \<or> is_float y \<or> isna y) xs
             then ''mixed-integer-float''
             else mixed_kind xs)
          else if is_bool v then
            (if list_all (\<lambda>y. is_bool y \<or> isna y) xs then ''boolean'' else mixed_kind xs)
          else if is_str v then
            (if list_all (\<lambda>y. is_str y \<or> isna y) xs then ''string'' else mixed_kind xs)
          else mixed_kind xs)"

text \<open>On a Series with a numpy dtype the answer is read off the dtype.\<close>

definition series_kind :: "series \<Rightarrow> string" where
  "series_kind s =
     (case dtype s of
        SInt w \<Rightarrow> ''integer''
      | UInt w \<Rightarrow> ''integer''
      | Float32 \<Rightarrow> ''floating''
      | Float64 \<Rightarrow> ''floating''
      | BoolDtype \<Rightarrow> ''boolean''
      | Datetime64 \<Rightarrow> ''datetime64''
      | ObjectDtype \<Rightarrow> infer_objects (vals s))"

text \<open>What \<open>infer_dtype\<close> makes of a DataFrame (the columns of one name) is a parameter,
  \<open>frame_kind\<close>: any answer, or an exception.\<close>

definition pd_infer_dtype :: "(dataframe \<Rightarrow> pyexc + string) \<Rightarrow> selection \<Rightarrow> pyexc + string" where
  "pd_infer_dtype frame_kind sel =
     (case sel of
        ASeries s \<Rightarrow> Inr (series_kind s)
      | AFrame f \<Rightarrow> frame_kind f)"

subsection \<open>astype(str)\<close>

text \<open>Python's \<open>str\<close> on a cell. The text of a float and of an object of another kind
  are parameters.\<close>

definition py_str :: "(real \<Rightarrow> string) \<Rightarrow> (nat \<Rightarrow> string) \<Rightarrow> pyobj \<Rightarrow> string" where
  "py_str float_repr other_repr v =
     (case v of
        PyInt i \<Rightarrow> str_int i
      | PyFloat x \<Rightarrow> float_repr x
      | PyNaN \<Rightarrow> ''nan''
      | PyNone \<Rightarrow> ''None''
      | PyStr s \<Rightarrow> s
      | PyBool b \<Rightarrow> (if b then ''True'' else ''False'')
      | PyOther k \<Rightarrow> other_repr k)"

definition series_astype_str :: "(real \<Rightarrow> string) \<Rightarrow> (nat \<Rightarrow> string) \<Rightarrow> series \<Rightarrow> series" where
  "series_astype_str float_repr other_repr s =
     \<lparr>dtype = ObjectDtype, vals = map (\<lambda>v. PyStr (py_str float_repr other_repr v)) (vals s)\<rparr>"

definition pd_astype_str ::
  "(real \<Rightarrow> string) \<Rightarrow> (nat \<Rightarrow> string) \<Rightarrow> selection \<Rightarrow> pyexc + selection" where
  "pd_astype_str float_repr other_repr sel =
     (case sel of
        ASeries s \<Rightarrow> Inr (ASeries (series_astype_str float_repr other_repr s))
      | AFrame f \<Rightarrow>
          Inr (AFrame (f\<lparr>columns :=
                 map (\<lambda>c. (fst c, series_astype_str float_repr other_repr (snd c))) (columns f)\<rparr>)))"

subsection \<open>to\_numeric\<close>

definition width_bits :: "width \<Rightarrow> nat" where
  "width_bits w = (case w of W8 \<Rightarrow> 8 | W16 \<Rightarrow> 16 | W32 \<Rightarrow> 32 | W64 \<Rightarrow> 64)"

definition dtype_bits :: "dtype \<Rightarrow> nat" where
  "dtype_bits d =
     (case d of
        SInt w \<Rightarrow> width_bits w
      | UInt w \<Rightarrow> width_bits w
      | Float32 \<Rightarrow> 32
      | Float64 \<Rightarrow> 64
      | BoolDtype \<Rightarrow> 8
      | Datetime64 \<Rightarrow> 64
      | ObjectDtype \<Rightarrow> 64)"

definition sint_range :: "width \<Rightarrow> int \<Rightarrow> bool" where
  "sint_range w i = (- (2 ^ (width_bits w - 1)) \<le> i \<and> i < 2 ^ (width_bits w - 1))"

definition uint_range :: "width \<Rightarrow> int \<Rightarrow> bool" where
  "uint_range w i = (0 \<le> i \<and> i < 2 ^ width_bits w)"

text \<open>A cell can be stored in a signed integer of width \<open>w\<close>: an integer in range, or a
  float that is a whole number in range. NaN cannot.\<close>

definition fits :: "width \<Rightarrow> pyobj \<Rightarrow> bool" where
  "fits w v =
     (case v of
        PyInt i \<Rightarrow> sint_range w i
      | PyFloat x \<Rightarrow> x = of_int \<lfloor>x\<rfloor> \<and> sint_range w \<lfloor>x\<rfloor>
      | _ \<Rightarrow> False)"

definition to_int :: "pyobj \<Rightarrow> pyobj" where
  "to_int v = (case v of PyFloat x \<Rightarrow> PyInt \<lfloor>x\<rfloor> | _ \<Rightarrow> v)"

text \<open>The float64 a cell is read as: \<open>f64\<close> is the conversion of a Python integer to
  float64, which has no value (\<open>OverflowError\<close>) on an integer too large for one;
  \<open>None\<close> is read as NaN.\<close>

definition to_float :: "(int \<Rightarrow> real option) \<Rightarrow> pyobj \<Rightarrow> pyobj option" where
  "to_float f64 v =
     (case v of
        PyInt i \<Rightarrow> map_option PyFloat (f64 i)
      | PyNone \<Rightarrow> Some PyNaN
      | _ \<Rightarrow> Some v)"

definition int_where :: "(int \<Rightarrow> bool) \<Rightarrow> pyobj \<Rightarrow> bool" where
  "int_where P v = (case v of PyInt i \<Rightarrow> P i | _ \<Rightarrow> False)"

text \<open>
  The first step of \<open>to_numeric\<close>, on a column of integers, floats and missing values
  (the columns that \<open>infer_dtype\<close> calls integer or floating). A column of a numeric
  dtype is taken as it is. Of an object column every cell is read as a float64 on the
  way, whatever is returned. The column is returned as it is, still of dtype \<open>object\<close>,
  when it holds an integer of the uint64 range above the int64 range together with a
  negative integer of the int64 range or a missing value. Otherwise it becomes float64
  when it holds a float, a missing value or an integer outside both the int64 and the
  uint64 range; else uint64 when it holds an integer above the int64 range; else int64.
\<close>

definition as_numeric :: "(int \<Rightarrow> real option) \<Rightarrow> series \<Rightarrow> pyexc + series" where
  "as_numeric f64 s =
     (if dtype s \<noteq> ObjectDtype then Inr s
      else case those (map (to_float f64) (vals s)) of
             None \<Rightarrow> Inl (PyExc ''OverflowError'' ''int too large to convert to float'')
           | Some floats \<Rightarrow>
               (let seen_uint = list_ex (int_where (\<lambda>i. 2 ^ 63 \<le> i \<and> i < 2 ^ 64)) (vals s);
                    seen_sint = list_ex (int_where (\<lambda>i. - (2 ^ 63) \<le> i \<and> i < 0)) (vals s);
                    seen_null = list_ex isna (vals s);
                    seen_float = (seen_null \<or> list_ex is_float (vals s)
                                  \<or> list_ex (int_where (\<lambda>i. 2 ^ 64 \<le> i \<or> i < - (2 ^ 63))) (vals s))
                in if seen_uint \<and> (seen_null \<or> seen_sint) then Inr s
                   else if seen_float then Inr \<lparr>dtype = Float64, vals = floats\<rparr>
                   else if seen_uint then Inr \<lparr>dtype = UInt W64, vals = vals s\<rparr>
                   else Inr \<lparr>dtype = SInt W64, vals = vals s\<rparr>))"

text \<open>\<open>downcast='integer'\<close>: the smallest signed integer type, no wider than the
  column's, that holds every value; the column is left as it is when there is none.\<close>

definition downcast_integer :: "series \<Rightarrow> series" where
  "downcast_integer a =
     (case find (\<lambda>w. width_bits w \<le> dtype_bits (dtype a) \<and> list_all (fits w) (vals a))
             [W8, W16, W32, W64] of
        None \<Rightarrow> a
      | Some w \<Rightarrow> \<lparr>dtype = SInt w, vals = map to_int (vals a)\<rparr>)"

text \<open>
  \<open>downcast='float'\<close>: float32 is the smallest type tried. A float64 column is narrowed
  when every value stays within \<open>5e-4\<close> of itself under the rounding \<open>f32\<close> to float32
  (NaN stays NaN); otherwise it is left as it is. A value too large for a float32
  becomes infinite and is not within \<open>5e-4\<close> of itself: there \<open>f32\<close> stands for any
  number that far from it.
\<close>

definition close32 :: "(real \<Rightarrow> real) \<Rightarrow> pyobj \<Rightarrow> bool" where
  "close32 f32 v =
     (case v of PyFloat x \<Rightarrow> \<bar>f32 x - x\<bar> \<le> 5 / 10 ^ 4 | PyNaN \<Rightarrow> True | _ \<Rightarrow> False)"

definition round32 :: "(real \<Rightarrow> real) \<Rightarrow> pyobj \<Rightarrow> pyobj" where
  "round32 f32 v = (case v of PyFloat x \<Rightarrow> PyFloat (f32 x) | _ \<Rightarrow> v)"

definition downcast_float :: "(real \<Rightarrow> real) \<Rightarrow> series \<Rightarrow> series" where
  "downcast_float f32 a =
     (if dtype a = Float64 \<and> list_all (close32 f32) (vals a)
      then \<lparr>dtype = Float32, vals = map (round32 f32) (vals a)\<rparr>
      else a)"

text \<open>The downcast is tried on a column of a numeric dtype only.\<close>

definition downcast :: "(real \<Rightarrow> real) \<Rightarrow> string \<Rightarrow> series \<Rightarrow> series" where
  "downcast f32 d a =
     (if dtype a = ObjectDtype then a
      else if d = ''integer'' then downcast_integer a
      else downcast_float f32 a)"

text \<open>
  \<open>pd.to_numeric(arg, downcast=d)\<close>, modelled on a Series that \<open>infer_dtype\<close> calls
  integer (for \<open>d = 'integer'\<close>) or floating (for \<open>d = 'float'\<close>). A DataFrame raises
  \<open>TypeError\<close>.
\<close>

definition pd_to_numeric ::
  "(real \<Rightarrow> real) \<Rightarrow> (int \<Rightarrow> real option) \<Rightarrow> (selection \<Rightarrow> string \<Rightarrow> pyexc + selection)
     \<Rightarrow> selection \<Rightarrow> string \<Rightarrow> pyexc + selection" where
  "pd_to_numeric f32 f64 rest sel d =
     (case sel of
        ASeries s \<Rightarrow>
          if (d = ''integer'' \<and> series_kind s = ''integer'')
             \<or> (d = ''float'' \<and> series_kind s = ''floating'')
          then (case as_numeric f64 s of
                  Inl e \<Rightarrow> Inl e
                | Inr a \<Rightarrow> Inr (ASeries (downcast f32 d a)))
          else rest sel d
      | AFrame f \<Rightarrow>
          Inl (PyExc ''TypeError'' ''arg must be a list, tuple, 1-d array, or Series''))"

subsection \<open>Division of a column by a number\<close>

text \<open>A column of an integer dtype of 16 bits or more, or of dtype float64, holding
  what the dtype can hold.\<close>

definition holds_numbers :: "series \<Rightarrow> bool" where
  "holds_numbers s =
     (case dtype s of
        SInt w \<Rightarrow> w \<noteq> W8 \<and> list_all (int_where (sint_range w)) (vals s)
      | UInt w \<Rightarrow> w \<noteq> W8 \<and> list_all (int_where (uint_range w)) (vals s)
      | Float64 \<Rightarrow> list_all (\<lambda>v. is_float v \<or> v = PyNaN) (vals s)
      | _ \<Rightarrow> False)"

text \<open>
  True division of a cell by an integer, in float64 arithmetic: \<open>r64\<close> rounds a real
  number to the nearest float64. An integer cell and the divisor are converted to
  float64 first; the quotient of the two floats is rounded. NaN stays NaN.
\<close>

definition cell_truediv :: "(real \<Rightarrow> real) \<Rightarrow> pyobj \<Rightarrow> int \<Rightarrow> pyobj" where
  "cell_truediv r64 v d =
     (case v of
        PyInt i \<Rightarrow> PyFloat (r64 (r64 (real_of_int i) / r64 (real_of_int d)))
      | PyFloat x \<Rightarrow> PyFloat (r64 (x / r64 (real_of_int d)))
      | _ \<Rightarrow> v)"

text \<open>\<open>series / d\<close>, modelled for a divisor \<open>0 < d < 2 ^ 15\<close> (one that every integer
  dtype of 16 bits or more holds) on such a column: the division is made cell by cell,
  and the result is a float64 column.\<close>

definition pd_truediv ::
  "(real \<Rightarrow> real) \<Rightarrow> (selection \<Rightarrow> int \<Rightarrow> pyexc + selection) \<Rightarrow> selection \<Rightarrow> int
     \<Rightarrow> pyexc + selection" where
  "pd_truediv r64 rest sel d =
     (case sel of
        ASeries s \<Rightarrow>
          if 0 < d \<and> d < 2 ^ 15 \<and> holds_numbers s
          then Inr (ASeries \<lparr>dtype = Float64, vals = map (\<lambda>v. cell_truediv r64 v d) (vals s)\<rparr>)
          else rest sel d
      | AFrame f \<Rightarrow> rest sel d)"

section \<open>example\_wiki\_scraper.py\<close>

subsection \<open>Column access\<close>

text \<open>\<open>df[key]\<close>: \<open>KeyError\<close> when no column bears the name.\<close>

definition getitem :: "dataframe \<Rightarrow> string \<Rightarrow> pyexc + selection" where
  "getitem df key =
     (case filter (\<lambda>c. fst c = key) (columns df) of
        [] \<Rightarrow> Inl (PyExc ''KeyError'' key)
      | c # cs \<Rightarrow> if cs = [] then Inr (ASeries (snd c))
                  else Inr (AFrame (df\<lparr>columns := c # cs\<rparr>)))"

text \<open>Replace, in order, the columns of one name by the given columns.\<close>

fun replace_named :: "string \<Rightarrow> series list \<Rightarrow> (string \<times> series) list \<Rightarrow> (string \<times> series) list" where
  "replace_named key new [] = []"
| "replace_named key new ((n, t) # cs) =
     (if n = key
      then (case new of
              [] \<Rightarrow> (n, t) # replace_named key [] cs
            | s # new' \<Rightarrow> (n, s) # replace_named key new' cs)
      else (n, t) # replace_named key new cs)"

text \<open>
  \<open>df[key] = value\<close>. A Series replaces every column of that name, or is appended as a
  new column when there is none. A DataFrame replaces the columns of that name one for
  one and must have as many columns as there are (one, for a new name); otherwise
  pandas raises \<open>ValueError\<close> and the table is left as it was. Values are taken by
  position: the alignment of index labels is not modelled.
\<close>

definition setitem :: "dataframe \<Rightarrow> string \<Rightarrow> selection \<Rightarrow> pyexc + dataframe" where
  "setitem df key v =
     (case v of
        ASeries s \<Rightarrow>
          if key \<in> fst ` set (columns df)
          then Inr (df\<lparr>columns := map (\<lambda>c. if fst c = key then (key, s) else c) (columns df)\<rparr>)
          else Inr (df\<lparr>columns := columns df @ [(key, s)]\<rparr>)
      | AFrame f \<Rightarrow>
          if key \<in> fst ` set (columns df)
          then if length (columns f) \<noteq> length (filter (\<lambda>c. fst c = key) (columns df))
               then Inl (PyExc ''ValueError'' ''Columns must be same length as key'')
               else Inr (df\<lparr>columns := replace_named key (map snd (columns f)) (columns df)\<rparr>)
          else if length (columns f) \<noteq> 1
               then Inl (PyExc ''ValueError'' ''Cannot set a DataFrame with multiple columns'')
               else Inr (df\<lparr>columns := columns df @ [(key, snd (hd (columns f)))]\<rparr>))"

subsection \<open>infer\_data\_types\<close>

text \<open>A Python dict of strings, in insertion order: assigning to a key that is present
  keeps the key's place.\<close>

fun dict_setitem :: "(string \<times> string) list \<Rightarrow> string \<Rightarrow> string \<Rightarrow> (string \<times> string) list" where
  "dict_setitem [] k v = [(k, v)]"
| "dict_setitem ((k', v') # d) k v =
     (if k' = k then (k, v) # d else (k', v') # dict_setitem d k v)"

text \<open>The loop of \<open>infer_data_types\<close> over \<open>df.columns\<close>.\<close>

fun infer_loop ::
  "library \<Rightarrow> dataframe \<Rightarrow> string list \<Rightarrow> (string \<times> string) list \<Rightarrow> pyexc + (string \<times> string) list" where
  "infer_loop L df [] inferred_types = Inr inferred_types"
| "infer_loop L df (column # rest) inferred_types =
     (case getitem df column of
        Inl e \<Rightarrow> Inl e
      | Inr sel \<Rightarrow>
          if is_numeric_dtype L sel
          then infer_loop L df rest (dict_setitem inferred_types column ''Numeric'')
          else (case getitem df column of
                  Inl e \<Rightarrow> Inl e
                | Inr sel' \<Rightarrow>
                    if is_string_dtype L sel'
                    then infer_loop L df rest (dict_setitem inferred_types column ''String'')
                    else infer_loop L df rest (dict_setitem inferred_types column ''Object'')))"

text \<open>\<open>pd.DataFrame(items, columns=[a, b])\<close> on a list of pairs of strings: two object
  columns, one row per pair.\<close>

definition pd_DataFrame_items :: "(string \<times> string) list \<Rightarrow> string \<Rightarrow> string \<Rightarrow> dataframe" where
  "pd_DataFrame_items items a b =
     \<lparr>index_len = length items,
      columns = [(a, \<lparr>dtype = ObjectDtype, vals = map (\<lambda>p. PyStr (fst p)) items\<rparr>),
                 (b, \<lparr>dtype = ObjectDtype, vals = map (\<lambda>p. PyStr (snd p)) items\<rparr>)]\<rparr>"

definition infer_data_types :: "library \<Rightarrow> ref \<Rightarrow> world \<Rightarrow> (pyexc + ref) \<times> world" where
  "infer_data_types L df st =
     (case infer_loop L (objs st df) (map fst (columns (objs st df))) [] of
        Inl e \<Rightarrow> (Inl e, st)
      | Inr inferred_types \<Rightarrow>
          (case alloc (pd_DataFrame_items inferred_types ''Column'' ''Inferred Type'') st of
             (r, st') \<Rightarrow> (Inr r, st')))"

subsection \<open>apply\_inferred\_types\<close>

text \<open>The \<open>try\<close> block of one iteration, on the table as it stands: the table with the
  column replaced, or the exception raised on the way.\<close>

definition coerce_column :: "library \<Rightarrow> dataframe \<Rightarrow> string \<Rightarrow> pyexc + dataframe" where
  "coerce_column L df column =
     seq (getitem df column) (\<lambda>sel.
     seq (infer_dtype L sel) (\<lambda>inferred_type.
       if inferred_type = ''integer''
       then seq (getitem df column) (\<lambda>c.
            seq (to_numeric L c ''integer'') (\<lambda>v. setitem df column v))
       else if inferred_type = ''floating''
       then seq (getitem df column) (\<lambda>c.
            seq (to_numeric L c ''float'') (\<lambda>v. setitem df column v))
       else if inferred_type = ''string''
       then seq (getitem df column) (\<lambda>c.
            seq (astype_str L c) (\<lambda>v. setitem df column v))
       else Inr df))"

text \<open>One iteration: the \<open>try\<close> block and its \<open>except Exception\<close> handler, on the object
  that \<open>df\<close> refers to.\<close>

definition coerce_iteration :: "library \<Rightarrow> ref \<Rightarrow> string \<Rightarrow> world \<Rightarrow> world" where
  "coerce_iteration L df column st =
     (case coerce_column L (objs st df) column of
        Inr df' \<Rightarrow> st\<lparr>objs := (objs st)(df := df')\<rparr>
      | Inl e \<Rightarrow>
          logger_error (''Could not convert column '' @ column @ ''. Error: '' @ exc_msg e) st)"

fun for_columns :: "library \<Rightarrow> ref \<Rightarrow> string list \<Rightarrow> world \<Rightarrow> world" where
  "for_columns L df [] st = st"
| "for_columns L df (column # rest) st = for_columns L df rest (coerce_iteration L df column st)"

definition apply_inferred_types :: "library \<Rightarrow> ref \<Rightarrow> world \<Rightarrow> (pyexc + ref) \<times> world" where
  "apply_inferred_types L df st =
     (Inr df, for_columns L df (map fst (columns (objs st df))) st)"

subsection \<open>plot\_world\_population\<close>

fun run_pyplot :: "library \<Rightarrow> plt_call list \<Rightarrow> pyexc + unit" where
  "run_pyplot L [] = Inr ()"
| "run_pyplot L (c # cs) = (case pyplot L c of Inl e \<Rightarrow> Inl e | Inr _ \<Rightarrow> run_pyplot L cs)"

text \<open>Each assignment to a column changes the object that \<open>df\<close> refers to at once, so
  an exception raised later leaves the earlier assignments in place.\<close>

definition plot_world_population :: "library \<Rightarrow> ref \<Rightarrow> world \<Rightarrow> (pyexc + unit) \<times> world" where
  "plot_world_population L df st =
     (case seq (getitem (objs st df) ''Year'') (\<lambda>y.
           seq (astype_str L y) (\<lambda>s.
           seq (to_datetime L s) (\<lambda>d. setitem (objs st df) ''Year'' d))) of
        Inl e \<Rightarrow> (Inl e, st)
      | Inr df1 \<Rightarrow>
          let st1 = st\<lparr>objs := (objs st)(df := df1)\<rparr>
          in (case seq (getitem df1 ''World Population (in thousands)'') (\<lambda>t.
                   seq (truediv L t 1000) (\<lambda>m.
                     setitem df1 ''World Population (in millions)'' m)) of
                Inl e \<Rightarrow> (Inl e, st1)
              | Inr df2 \<Rightarrow>
                  (let st2 = st1\<lparr>objs := (objs st1)(df := df2)\<rparr>
                   in (seq (pyplot L (Figure (12, 6))) (\<lambda>u.
                       seq (getitem df2 ''Year'') (\<lambda>x.
                       seq (getitem df2 ''World Population (in millions)'') (\<lambda>y.
                         run_pyplot L
                           [Plot x y ''o'',
                            Title ''World Population Over the Years'',
                            XLabel ''Year'',
                            YLabel ''Population (in millions)'',
                            Grid True,
                            XTicks 45,
                            TightLayout,
                            Show]))), st2))))"

subsection \<open>scrape\_wikipedia\_demographics\<close>

text \<open>The tags below a node, in document order.\<close>

fun descendants :: "node \<Rightarrow> node list" where
  "descendants (Tag n cs kids) = concat (map (\<lambda>k. k # descendants k) kids)"
| "descendants (NavigableString s) = []"

definition matches :: "string \<Rightarrow> string \<Rightarrow> node \<Rightarrow> bool" where
  "matches name cls n =
     (case n of Tag m cs kids \<Rightarrow> m = name \<and> cls \<in> set cs | NavigableString s \<Rightarrow> False)"

text \<open>\<open>soup.find(name, {'class': cls})\<close>: the first tag, in document order, of that
  name with that class among its classes, or \<open>None\<close>.\<close>

definition soup_find :: "node \<Rightarrow> string \<Rightarrow> string \<Rightarrow> node option" where
  "soup_find soup name cls = find (matches name cls) (descendants soup)"

text \<open>
  The \<open>try\<close> block: \<open>Inr (Some df)\<close> when it returns a table, \<open>Inr None\<close> when it falls
  through (no table found), \<open>Inl\<close> when a call raises. A \<open>Tag\<close> is always true in
  \<open>if table\<close>, so the test is whether \<open>find\<close> returned one.
\<close>

definition scrape_try :: "library \<Rightarrow> string \<Rightarrow> pyexc + dataframe option" where
  "scrape_try L url =
     seq (requests_get L url) (\<lambda>page.
     seq (BeautifulSoup L (content page) ''html.parser'') (\<lambda>soup.
       case soup_find soup ''table'' ''wikitable'' of
         None \<Rightarrow> Inr None
       | Some table \<Rightarrow>
           seq (read_html L (tag_str L table)) (\<lambda>tables.
             case tables of
               [] \<Rightarrow> Inl (PyExc ''IndexError'' ''list index out of range'')
             | t # ts \<Rightarrow> Inr (Some t))))"

definition scrape_wikipedia_demographics ::
  "library \<Rightarrow> string \<Rightarrow> world \<Rightarrow> (pyexc + ref option) \<times> world" where
  "scrape_wikipedia_demographics L url st =
     (case scrape_try L url of
        Inr (Some t) \<Rightarrow> (case alloc t st of (r, st') \<Rightarrow> (Inr (Some r), st'))
      | Inr None \<Rightarrow> (Inr None, st)
      | Inl e \<Rightarrow> (Inr None, logger_error (''An error occurred while scraping: '' @ exc_msg e) st))"

subsection \<open>main\<close>

definition main_example_wiki_scraper ::
  "library \<Rightarrow> namespace \<Rightarrow> world \<Rightarrow> (pyexc + int) \<times> world" where
  "main_example_wiki_scraper L args st =
     (let st0 = logger_info ''Starting script.'' st;
          url = ''https://en.wikipedia.org/wiki/Demographics_of_the_world''
      in case scrape_wikipedia_demographics L url st0 of
           (Inl e, st1) \<Rightarrow> (Inl e, st1)
         | (Inr None, st1) \<Rightarrow> (Inr 0, st1)
         | (Inr (Some df), st1) \<Rightarrow>
             (case apply_inferred_types L df st1 of
                (Inl e, st2) \<Rightarrow> (Inl e, st2)
              | (Inr df', st2) \<Rightarrow>
                  (case plot_world_population L df' st2 of
                     (Inl e, st3) \<Rightarrow> (Inl e, st3)
                   | (Inr u, st3) \<Rightarrow>
                       (Inr 0, logger_info (''Demographics DataFrame:'' @ [CHR 0x0A]
                                             @ to_string L (objs st3 df')) st3))))"

section \<open>Notions used in the statements\<close>

text \<open>The elements of a list, each at its first occurrence.\<close>

fun first_occurrences :: "'a list \<Rightarrow> 'a list" where
  "first_occurrences [] = []"
| "first_occurrences (x # xs) = x # first_occurrences (filter (\<lambda>y. y \<noteq> x) xs)"

text \<open>The columns of a table that bear a given name, in order.\<close>

definition columns_named :: "string \<Rightarrow> dataframe \<Rightarrow> (string \<times> series) list" where
  "columns_named c df = filter (\<lambda>p. fst p = c) (columns df)"

text \<open>The label that one iteration of \<open>infer_data_types\<close> gives a column name.\<close>

definition column_label :: "library \<Rightarrow> dataframe \<Rightarrow> string \<Rightarrow> string" where
  "column_label L df c =
     (case getitem df c of
        Inl e \<Rightarrow> ''Object''
      | Inr sel \<Rightarrow>
          if is_numeric_dtype L sel then ''Numeric''
          else if is_string_dtype L sel then ''String''
          else ''Object'')"

definition is_integer_dtype :: "dtype \<Rightarrow> bool" where
  "is_integer_dtype d = (case d of SInt w \<Rightarrow> True | UInt w \<Rightarrow> True | _ \<Rightarrow> False)"

text \<open>What an assignment \<open>df[c] = v\<close> makes of the columns named \<open>c\<close>, when there are some.\<close>

definition set_group ::
  "string \<Rightarrow> selection \<Rightarrow> (string \<times> series) list \<Rightarrow> pyexc + (string \<times> series) list" where
  "set_group c v g =
     (case v of
        ASeries s \<Rightarrow> Inr (map (\<lambda>p. (c, s)) g)
      | AFrame f \<Rightarrow>
          if length (columns f) \<noteq> length g
          then Inl (PyExc ''ValueError'' ''Columns must be same length as key'')
          else Inr (replace_named c (map snd (columns f)) g))"

text \<open>The names and the values of the columns of a table, dtypes left out.\<close>

definition column_values :: "dataframe \<Rightarrow> (string \<times> pyobj list) list" where
  "column_values df = map (\<lambda>p. (fst p, vals (snd p))) (columns df)"

definition group_values :: "(string \<times> series) list \<Rightarrow> (string \<times> pyobj list) list" where
  "group_values g = map (\<lambda>p. (fst p, vals (snd p))) g"

text \<open>
  What the three branches of \<open>apply_inferred_types\<close> make of a Series in the model of
  pandas (a column whose coercion raises is left as it is), and what one iteration
  makes of the columns of one name in a table of \<open>n\<close> rows: a single column is coerced
  by its inferred kind; several columns of one name are a DataFrame, which becomes text
  when \<open>infer_dtype\<close> calls it a string and is left as it is otherwise, \<open>to_numeric\<close>
  raising on a DataFrame.
\<close>

definition pd_coerce_series ::
  "(real \<Rightarrow> real) \<Rightarrow> (int \<Rightarrow> real option) \<Rightarrow> (real \<Rightarrow> string) \<Rightarrow> (nat \<Rightarrow> string)
     \<Rightarrow> series \<Rightarrow> series" where
  "pd_coerce_series f32 f64 float_repr other_repr s =
     (if series_kind s = ''integer''
      then (case as_numeric f64 s of Inl e \<Rightarrow> s | Inr a \<Rightarrow> downcast f32 ''integer'' a)
      else if series_kind s = ''floating''
      then (case as_numeric f64 s of Inl e \<Rightarrow> s | Inr a \<Rightarrow> downcast f32 ''float'' a)
      else if series_kind s = ''string'' then series_astype_str float_repr other_repr s
      else s)"

definition pd_coerce_group ::
  "(dataframe \<Rightarrow> pyexc + string) \<Rightarrow> (real \<Rightarrow> real) \<Rightarrow> (int \<Rightarrow> real option)
     \<Rightarrow> (real \<Rightarrow> string) \<Rightarrow> (nat \<Rightarrow> string)
     \<Rightarrow> nat \<Rightarrow> (string \<times> series) list \<Rightarrow> (string \<times> series) list" where
  "pd_coerce_group frame_kind f32 f64 float_repr other_repr n g =
     (case g of
        [] \<Rightarrow> []
      | p # ps \<Rightarrow>
          if ps = [] then [(fst p, pd_coerce_series f32 f64 float_repr other_repr (snd p))]
          else if frame_kind \<lparr>index_len = n, columns = g\<rparr> = Inr ''string''
          then map (\<lambda>q. (fst q, series_astype_str float_repr other_repr (snd q))) g
          else g)"

section \<open>Sample inputs\<close>

text \<open>Concrete tables, a page and libraries, on which the theorems below are run.\<close>

definition empty_frame :: dataframe where
  "empty_frame = \<lparr>index_len = 0, columns = []\<rparr>"

definition world0 :: world where
  "world0 = \<lparr>objs = (\<lambda>r. empty_frame), next_ref = 0, logged = [], draws = (\<lambda>i. 1 / 2)\<rparr>"

definition demo_table :: dataframe where
  "demo_table =
     \<lparr>index_len = 2,
      columns = [(''Year'', \<lparr>dtype = SInt W64, vals = [PyInt 1950, PyInt 1951]\<rparr>),
                 (''World Population (in thousands)'',
                  \<lparr>dtype = SInt W64, vals = [PyInt 1000, PyInt 2000]\<rparr>)]\<rparr>"

definition other_table :: dataframe where
  "other_table =
     \<lparr>index_len = 1,
      columns = [(''Region'', \<lparr>dtype = ObjectDtype, vals = [PyStr ''Asia'']\<rparr>)]\<rparr>"

definition demo_page :: node where
  "demo_page =
     Tag ''[document]'' []
       [Tag ''html'' []
          [Tag ''table'' [''infobox''] [NavigableString ''box''],
           Tag ''div'' []
             [Tag ''table'' [''wikitable'', ''sortable''] [NavigableString ''first'']],
           Tag ''table'' [''wikitable''] [NavigableString ''second'']]]"

definition plain_page :: node where
  "plain_page =
     Tag ''[document]'' []
       [Tag ''html'' [] [Tag ''table'' [''infobox''] [NavigableString ''box'']]]"

definition demo_tag_str :: "node \<Rightarrow> string" where
  "demo_tag_str n = (case n of Tag m cs [NavigableString s] \<Rightarrow> s | _ \<Rightarrow> [])"

definition demo_read_html :: "string \<Rightarrow> pyexc + dataframe list" where
  "demo_read_html markup =
     (if markup = ''first'' then Inr [demo_table]
      else if markup = ''second'' then Inr [other_table]
      else Inl (PyExc ''ValueError'' ''No tables found''))"

definition demo_to_datetime :: "selection \<Rightarrow> pyexc + selection" where
  "demo_to_datetime sel =
     (case sel of
        ASeries s \<Rightarrow> Inr (ASeries \<lparr>dtype = Datetime64, vals = vals s\<rparr>)
      | AFrame f \<Rightarrow> Inl (PyExc ''ValueError'' ''to assemble mappings requires at least that [year, month, day] be specified''))"

definition unsupported :: "selection \<Rightarrow> 'a \<Rightarrow> pyexc + selection" where
  "unsupported sel d = Inl (PyExc ''TypeError'' ''unsupported operand'')"

text \<open>An \<open>infer_dtype\<close> that reads a DataFrame as its column labels, which are strings.\<close>

definition labels_kind :: "dataframe \<Rightarrow> pyexc + string" where
  "labels_kind f = Inr (if columns f = [] then ''empty'' else ''string'')"

text \<open>A machine that holds up to a million cells at once.\<close>

definition demo_alloc_error :: "allocation \<Rightarrow> pyexc option" where
  "demo_alloc_error a =
     (let cells = (case a of ArrayOf r c \<Rightarrow> r * c | ListOf n \<Rightarrow> n | FrameOf r c \<Rightarrow> r * c)
      in if cells \<le> 1000000 then None else Some (PyExc ''MemoryError'' ''Unable to allocate''))"

text \<open>The sample library computes with exact numbers: its roundings change nothing.\<close>

definition demo_library :: library where
  "demo_library =
     \<lparr>requests_get = (\<lambda>url. Inr \<lparr>content = ''<html>''\<rparr>),
      BeautifulSoup = (\<lambda>markup parser. Inr demo_page),
      tag_str = demo_tag_str,
      read_html = demo_read_html,
      is_numeric_dtype = pd_is_numeric_dtype,
      is_string_dtype = pd_is_string_dtype,
      infer_dtype = pd_infer_dtype labels_kind,
      to_numeric = pd_to_numeric (\<lambda>x. x) (\<lambda>i. Some (real_of_int i)) unsupported,
      astype_str = pd_astype_str (\<lambda>x. ''float'') (\<lambda>k. ''object''),
      to_datetime = demo_to_datetime,
      truediv = pd_truediv (\<lambda>x. x) unsupported,
      pyplot = (\<lambda>c. Inr ()),
      to_string = (\<lambda>df. ''table''),
      alloc_error = demo_alloc_error\<rparr>"

definition offline_library :: library where
  "offline_library =
     demo_library\<lparr>requests_get := (\<lambda>url. Inl (PyExc ''ConnectionError'' ''no route to host''))\<rparr>"

definition plain_library :: library where
  "plain_library = demo_library\<lparr>BeautifulSoup := (\<lambda>markup parser. Inr plain_page)\<rparr>"

text \<open>A page whose first table of class \<open>wikitable\<close> holds nothing that \<open>read_html\<close> can
  parse, followed by one that it can.\<close>

definition torn_page :: node where
  "torn_page =
     Tag ''[document]'' []
       [Tag ''html'' []
          [Tag ''table'' [''wikitable''] [NavigableString ''torn''],
           Tag ''table'' [''wikitable''] [NavigableString ''second'']]]"

definition torn_library :: library where
  "torn_library = demo_library\<lparr>BeautifulSoup := (\<lambda>markup parser. Inr torn_page)\<rparr>"

definition world1 :: world where
  "world1 =
     world0\<lparr>objs := (\<lambda>r. if r = 0 then demo_table else if r = 1 then other_table else empty_frame),
            next_ref := 2\<rparr>"

definition twin_table :: dataframe where
  "twin_table =
     \<lparr>index_len = 2,
      columns = [(''a'', \<lparr>dtype = SInt W64, vals = [PyInt 1, PyInt 2]\<rparr>),
                 (''a'', \<lparr>dtype = SInt W64, vals = [PyInt 3, PyInt 4]\<rparr>)]\<rparr>"

definition boxed_table :: dataframe where
  "boxed_table =
     \<lparr>index_len = 2,
      columns = [(''n'', \<lparr>dtype = ObjectDtype, vals = [PyInt 1, PyInt 2]\<rparr>)]\<rparr>"

definition typed_table :: dataframe where
  "typed_table =
     \<lparr>index_len = 3,
      columns = [(''a'', \<lparr>dtype = SInt W64, vals = [PyInt 1, PyInt 2, PyInt 3]\<rparr>),
                 (''b'', \<lparr>dtype = ObjectDtype, vals = [PyStr ''x'', PyStr ''y'', PyStr ''z'']\<rparr>),
                 (''c'', \<lparr>dtype = ObjectDtype, vals = [PyStr ''x'', PyInt 2, PyNone]\<rparr>)]\<rparr>"

definition world_of :: "dataframe \<Rightarrow> world" where
  "world_of df = world0\<lparr>objs := (\<lambda>r. if r = 0 then df else empty_frame), next_ref := 1\<rparr>"

definition ragged_table :: dataframe where
  "ragged_table =
     \<lparr>index_len = 2,
      columns = [(''a'', \<lparr>dtype = SInt W64, vals = [PyInt 1, PyInt 2]\<rparr>),
                 (''b'', \<lparr>dtype = ObjectDtype, vals = [PyStr ''x'', PyNone]\<rparr>)]\<rparr>"

definition broken_library :: library where
  "broken_library = demo_library\<lparr>to_numeric := unsupported\<rparr>"

definition lonely_table :: dataframe where
  "lonely_table =
     \<lparr>index_len = 2,
      columns = [(''World Population (in thousands)'',
                  \<lparr>dtype = SInt W64, vals = [PyInt 1000, PyInt 2000]\<rparr>)]\<rparr>"

definition gappy_table :: dataframe where
  "gappy_table =
     \<lparr>index_len = 2,
      columns = [(''n'', \<lparr>dtype = ObjectDtype, vals = [PyInt 7, PyNone]\<rparr>),
                 (''t'', \<lparr>dtype = ObjectDtype, vals = [PyStr ''x'', PyNone]\<rparr>),
                 (''k'', \<lparr>dtype = SInt W64, vals = [PyInt 1, PyInt 300]\<rparr>),
                 (''f'', \<lparr>dtype = ObjectDtype, vals = [PyFloat (3 / 2), PyNone]\<rparr>),
                 (''u'', \<lparr>dtype = ObjectDtype, vals = [PyInt (2 ^ 63), PyInt (- 1)]\<rparr>)]\<rparr>"

section \<open>The scraper\<close>

lemma find_None_list_ex: "find P xs = None \<longleftrightarrow> \<not> list_ex P xs"
  by (induction xs) auto

lemma find_first: "\<not> list_ex P before \<Longrightarrow> P x \<Longrightarrow> find P (before @ x # after) = Some x"
  by (induction before) auto

text \<open>
  Claim C1. For every URL, \<open>scrape_wikipedia_demographics\<close> never raises to its caller.
  Whatever the library does, the call returns a value; an exception raised anywhere in
  the \<open>try\<close> block (a failed fetch is one) is logged as an error and the result is
  \<open>None\<close>; and when the fetched markup holds no \<open>table\<close> of class \<open>wikitable\<close> the
  result is \<open>None\<close>, with nothing logged.
\<close>

theorem scrape_never_raises:
  "(\<exists>res st'. scrape_wikipedia_demographics L url st = (Inr res, st'))
   \<and> (\<forall>e. scrape_try L url = Inl e \<longrightarrow>
         scrape_wikipedia_demographics L url st
           = (Inr None, logger_error (''An error occurred while scraping: '' @ exc_msg e) st))
   \<and> (\<forall>e. requests_get L url = Inl e \<longrightarrow> scrape_try L url = Inl e)
   \<and> (\<forall>page soup. requests_get L url = Inr page
         \<and> BeautifulSoup L (content page) ''html.parser'' = Inr soup
         \<and> \<not> list_ex (matches ''table'' ''wikitable'') (descendants soup)
       \<longrightarrow> scrape_wikipedia_demographics L url st = (Inr None, st))"
proof (intro conjI allI impI)
  show "\<exists>res st'. scrape_wikipedia_demographics L url st = (Inr res, st')"
    by (auto simp: scrape_wikipedia_demographics_def split: sum.splits option.splits prod.splits)
next
  fix e assume "scrape_try L url = Inl e"
  then show "scrape_wikipedia_demographics L url st
           = (Inr None, logger_error (''An error occurred while scraping: '' @ exc_msg e) st)"
    by (simp add: scrape_wikipedia_demographics_def)
next
  fix e assume "requests_get L url = Inl e"
  then show "scrape_try L url = Inl e"
    by (simp add: scrape_try_def seq_def)
next
  fix page soup
  assume a: "requests_get L url = Inr page
         \<and> BeautifulSoup L (content page) ''html.parser'' = Inr soup
         \<and> \<not> list_ex (matches ''table'' ''wikitable'') (descendants soup)"
  then have "soup_find soup ''table'' ''wikitable'' = None"
    by (simp add: soup_find_def find_None_list_ex)
  with a have "scrape_try L url = Inr None"
    by (simp add: scrape_try_def seq_def)
  then show "scrape_wikipedia_demographics L url st = (Inr None, st)"
    by (simp add: scrape_wikipedia_demographics_def)
qed

text \<open>The theorem at a library whose fetch raises, and at one whose page has no such table.\<close>

theorem scrape_never_raises_witness:
  "scrape_try offline_library ''https://en.wikipedia.org/wiki/Demographics_of_the_world''
     = Inl (PyExc ''ConnectionError'' ''no route to host'')
   \<and> scrape_wikipedia_demographics offline_library
        ''https://en.wikipedia.org/wiki/Demographics_of_the_world'' world0
     = (Inr None,
        logger_error ''An error occurred while scraping: no route to host'' world0)
   \<and> \<not> list_ex (matches ''table'' ''wikitable'') (descendants plain_page)
   \<and> scrape_wikipedia_demographics plain_library
        ''https://en.wikipedia.org/wiki/Demographics_of_the_world'' world0
     = (Inr None, world0)"
proof -
  let ?url = "''https://en.wikipedia.org/wiki/Demographics_of_the_world''"
  have g: "requests_get offline_library ?url = Inl (PyExc ''ConnectionError'' ''no route to host'')"
    by (simp add: offline_library_def)
  have p: "requests_get plain_library ?url = Inr \<lparr>content = ''<html>''\<rparr>"
    "BeautifulSoup plain_library ''<html>'' ''html.parser'' = Inr plain_page"
    by (simp_all add: plain_library_def demo_library_def)
  have n: "\<not> list_ex (matches ''table'' ''wikitable'') (descendants plain_page)"
    by (simp add: plain_page_def matches_def)
  from scrape_never_raises [of offline_library ?url world0] g
  have 1: "scrape_try offline_library ?url = Inl (PyExc ''ConnectionError'' ''no route to host'')"
    by blast
  with scrape_never_raises [of offline_library ?url world0]
  have 2: "scrape_wikipedia_demographics offline_library ?url world0
     = (Inr None, logger_error ''An error occurred while scraping: no route to host'' world0)"
    by simp
  from scrape_never_raises [of plain_library ?url world0] p n
  have 3: "scrape_wikipedia_demographics plain_library ?url world0 = (Inr None, world0)"
    by (metis response.select_convs(1))
  from 1 2 3 n show ?thesis by blast
qed

text \<open>
  Claim C7, as amended. On a successful fetch whose markup holds a table of class
  \<open>wikitable\<close>, the first such element in document order, and no other, is handed to
  \<open>read_html\<close>, whatever follows it. When \<open>read_html\<close> parses that element, its first
  table is the DataFrame returned; when \<open>read_html\<close> raises on it, or finds no table in
  it, the error is logged and the result is \<open>None\<close>: a later table is not tried.
\<close>

theorem scrape_first_table:
  assumes "requests_get L url = Inr page"
    and "BeautifulSoup L (content page) ''html.parser'' = Inr soup"
    and "descendants soup = before @ table # after"
    and "\<not> list_ex (matches ''table'' ''wikitable'') before"
    and "matches ''table'' ''wikitable'' table"
  shows "(\<forall>t ts. read_html L (tag_str L table) = Inr (t # ts) \<longrightarrow>
            (\<exists>st'. scrape_wikipedia_demographics L url st = (Inr (Some (next_ref st)), st')
                 \<and> objs st' (next_ref st) = t))
     \<and> (\<forall>e. read_html L (tag_str L table) = Inl e \<longrightarrow>
            scrape_wikipedia_demographics L url st
              = (Inr None, logger_error (''An error occurred while scraping: '' @ exc_msg e) st))
     \<and> (read_html L (tag_str L table) = Inr [] \<longrightarrow>
            scrape_wikipedia_demographics L url st
              = (Inr None,
                 logger_error ''An error occurred while scraping: list index out of range'' st))"
proof -
  have f: "soup_find soup ''table'' ''wikitable'' = Some table"
    using assms(3-5) by (simp add: soup_find_def find_first)
  have 1: "\<exists>st'. scrape_wikipedia_demographics L url st = (Inr (Some (next_ref st)), st')
                 \<and> objs st' (next_ref st) = t"
    if "read_html L (tag_str L table) = Inr (t # ts)" for t ts
  proof -
    from that f assms(1,2) have "scrape_try L url = Inr (Some t)"
      by (simp add: scrape_try_def seq_def)
    then show ?thesis
      by (simp add: scrape_wikipedia_demographics_def alloc_def)
  qed
  have 2: "scrape_wikipedia_demographics L url st
              = (Inr None, logger_error (''An error occurred while scraping: '' @ exc_msg e) st)"
    if "read_html L (tag_str L table) = Inl e" for e
  proof -
    from that f assms(1,2) have "scrape_try L url = Inl e"
      by (simp add: scrape_try_def seq_def)
    then show ?thesis
      by (simp add: scrape_wikipedia_demographics_def)
  qed
  have 3: "scrape_wikipedia_demographics L url st
              = (Inr None,
                 logger_error ''An error occurred while scraping: list index out of range'' st)"
    if "read_html L (tag_str L table) = Inr []"
  proof -
    from that f assms(1,2)
    have "scrape_try L url = Inl (PyExc ''IndexError'' ''list index out of range'')"
      by (simp add: scrape_try_def seq_def)
    then show ?thesis
      by (simp add: scrape_wikipedia_demographics_def)
  qed
  from 1 2 3 show ?thesis by blast
qed

text \<open>The theorem on a page with three tables, two of them of class \<open>wikitable\<close>, the
  first of which parses; and on a page whose first such table does not.\<close>

theorem scrape_first_table_witness:
  "requests_get demo_library ''u'' = Inr \<lparr>content = ''<html>''\<rparr>
   \<and> BeautifulSoup demo_library ''<html>'' ''html.parser'' = Inr demo_page
   \<and> descendants demo_page =
       [Tag ''html'' []
          [Tag ''table'' [''infobox''] [NavigableString ''box''],
           Tag ''div'' []
             [Tag ''table'' [''wikitable'', ''sortable''] [NavigableString ''first'']],
           Tag ''table'' [''wikitable''] [NavigableString ''second'']],
        Tag ''table'' [''infobox''] [NavigableString ''box''],
        NavigableString ''box'',
        Tag ''div'' []
          [Tag ''table'' [''wikitable'', ''sortable''] [NavigableString ''first'']]]
       @ Tag ''table'' [''wikitable'', ''sortable''] [NavigableString ''first'']
       # [NavigableString ''first'',
          Tag ''table'' [''wikitable''] [NavigableString ''second''],
          NavigableString ''second'']
   \<and> read_html demo_library
        (tag_str demo_library (Tag ''table'' [''wikitable'', ''sortable''] [NavigableString ''first'']))
       = Inr [demo_table]
   \<and> (\<exists>st'. scrape_wikipedia_demographics demo_library ''u'' world0 = (Inr (Some 0), st')
           \<and> objs st' 0 = demo_table)
   \<and> descendants torn_page =
       [Tag ''html'' []
          [Tag ''table'' [''wikitable''] [NavigableString ''torn''],
           Tag ''table'' [''wikitable''] [NavigableString ''second'']]]
       @ Tag ''table'' [''wikitable''] [NavigableString ''torn'']
       # [NavigableString ''torn'',
          Tag ''table'' [''wikitable''] [NavigableString ''second''],
          NavigableString ''second'']
   \<and> read_html torn_library
        (tag_str torn_library (Tag ''table'' [''wikitable''] [NavigableString ''torn'']))
       = Inl (PyExc ''ValueError'' ''No tables found'')
   \<and> scrape_wikipedia_demographics torn_library ''u'' world0
       = (Inr None, logger_error ''An error occurred while scraping: No tables found'' world0)"
proof -
  let ?T = "Tag ''table'' [''wikitable'', ''sortable''] [NavigableString ''first'']"
  let ?B = "[Tag ''html'' []
          [Tag ''table'' [''infobox''] [NavigableString ''box''],
           Tag ''div'' []
             [Tag ''table'' [''wikitable'', ''sortable''] [NavigableString ''first'']],
           Tag ''table'' [''wikitable''] [NavigableString ''second'']],
        Tag ''table'' [''infobox''] [NavigableString ''box''],
        NavigableString ''box'',
        Tag ''div'' []
          [Tag ''table'' [''wikitable'', ''sortable''] [NavigableString ''first'']]]"
  let ?A = "[NavigableString ''first'',
          Tag ''table'' [''wikitable''] [NavigableString ''second''],
          NavigableString ''second'']"
  let ?T' = "Tag ''table'' [''wikitable''] [NavigableString ''torn'']"
  let ?B' = "[Tag ''html'' []
          [Tag ''table'' [''wikitable''] [NavigableString ''torn''],
           Tag ''table'' [''wikitable''] [NavigableString ''second'']]]"
  let ?A' = "[NavigableString ''torn'',
          Tag ''table'' [''wikitable''] [NavigableString ''second''],
          NavigableString ''second'']"
  have 1: "requests_get demo_library ''u'' = Inr \<lparr>content = ''<html>''\<rparr>"
    by (simp add: demo_library_def)
  have 2: "BeautifulSoup demo_library (content \<lparr>content = ''<html>''\<rparr>) ''html.parser'' = Inr demo_page"
    by (simp add: demo_library_def)
  have 3: "descendants demo_page = ?B @ ?T # ?A"
    by (simp add: demo_page_def)
  have 4: "\<not> list_ex (matches ''table'' ''wikitable'') ?B"
    by (simp add: matches_def)
  have 5: "matches ''table'' ''wikitable'' ?T"
    by (simp add: matches_def)
  have 6: "read_html demo_library (tag_str demo_library ?T) = Inr [demo_table]"
    by (simp add: demo_library_def demo_tag_str_def demo_read_html_def)
  from scrape_first_table [OF 1 2 3 4 5, of world0] 6
  have 7: "\<exists>st'. scrape_wikipedia_demographics demo_library ''u'' world0 = (Inr (Some 0), st')
           \<and> objs st' 0 = demo_table"
    by (simp add: world0_def)
  have t1: "requests_get torn_library ''u'' = Inr \<lparr>content = ''<html>''\<rparr>"
    by (simp add: torn_library_def demo_library_def)
  have t2: "BeautifulSoup torn_library (content \<lparr>content = ''<html>''\<rparr>) ''html.parser'' = Inr torn_page"
    by (simp add: torn_library_def)
  have t3: "descendants torn_page = ?B' @ ?T' # ?A'"
    by (simp add: torn_page_def)
  have t4: "\<not> list_ex (matches ''table'' ''wikitable'') ?B'"
    by (simp add: matches_def)
  have t5: "matches ''table'' ''wikitable'' ?T'"
    by (simp add: matches_def)
  have t6: "read_html torn_library (tag_str torn_library ?T')
              = Inl (PyExc ''ValueError'' ''No tables found'')"
    by (simp add: torn_library_def demo_library_def demo_tag_str_def demo_read_html_def)
  from scrape_first_table [OF t1 t2 t3 t4 t5, of world0] t6
  have 8: "scrape_wikipedia_demographics torn_library ''u'' world0
       = (Inr None, logger_error ''An error occurred while scraping: No tables found'' world0)"
    by simp
  from 1 2 3 6 7 t3 t6 8 show ?thesis by simp
qed

text \<open>
  Claim C7 as stated (a markup with a table of that class is parsed into the dataset
  returned) fails on a page whose first table of class \<open>wikitable\<close> does not parse: the
  fetch succeeds, the markup holds two tables of that class, and the result is \<open>None\<close>,
  although the second table would parse.
\<close>

theorem scrape_first_table_unparsed:
  "requests_get torn_library ''u'' = Inr \<lparr>content = ''<html>''\<rparr>
   \<and> BeautifulSoup torn_library ''<html>'' ''html.parser'' = Inr torn_page
   \<and> list_ex (matches ''table'' ''wikitable'') (descendants torn_page)
   \<and> read_html torn_library (tag_str torn_library (Tag ''table'' [''wikitable''] [NavigableString ''second'']))
       = Inr [other_table]
   \<and> scrape_wikipedia_demographics torn_library ''u'' world0
       = (Inr None, logger_error ''An error occurred while scraping: No tables found'' world0)"
  by (simp add: torn_library_def demo_library_def torn_page_def matches_def demo_tag_str_def
        demo_read_html_def scrape_wikipedia_demographics_def scrape_try_def seq_def soup_find_def)

section \<open>The random table generator\<close>

lemma flat_index_bound: "i < r \<Longrightarrow> j < c \<Longrightarrow> i * c + j < r * (c::nat)"
proof -
  assume a: "i < r" "j < c"
  then have "i * c + j < i * c + c" by simp
  also have "\<dots> = Suc i * c" by simp
  also have "\<dots> \<le> r * c" using a(1) by (intro mult_le_mono1) simp
  finally show ?thesis .
qed

lemma str_int_123: "str_int 1 = ''1''" "str_int 2 = ''2''" "str_int 3 = ''3''"
  by code_simp+

text \<open>
  Claim C3, as amended. For all row and column counts \<open>0 \<le> r, c < 2 ^ 63\<close> for which the
  machine can hold the array, the list of column names and the table, and a random
  source whose draws lie in \<open>[0, 1)\<close> as numpy's do, \<open>generate_random_dataframe(r, c)\<close>
  raises nothing and returns a table of exactly \<open>r\<close> rows and \<open>c\<close> columns, every value
  in \<open>[0, 1)\<close>, the columns named \<open>Column1\<close> to \<open>ColumnC\<close> in order. A dimension of
  \<open>2 ^ 63\<close> or more raises \<open>ValueError\<close>, and an array that the machine cannot hold
  raises what the machine answers. With the arguments omitted the counts are 5 and 5.
\<close>

theorem generate_random_dataframe_shape:
  "(0 \<le> r \<and> r < 2 ^ 63 \<and> 0 \<le> c \<and> c < 2 ^ 63
      \<and> allocate L (ArrayOf (nat r) (nat c)) = None
      \<and> allocate L (ListOf (nat c)) = None
      \<and> allocate L (FrameOf (nat r) (nat c)) = None
      \<and> (\<forall>i. 0 \<le> draws st i \<and> draws st i < 1)
    \<longrightarrow> (\<exists>df st'. generate_random_dataframe L (Some r) (Some c) st = (Inr df, st')
           \<and> index_len df = nat r
           \<and> length (columns df) = nat c
           \<and> map fst (columns df) = map (\<lambda>i. ''Column'' @ str_int (int i + 1)) [0..<nat c]
           \<and> (\<forall>s \<in> snd ` set (columns df). length (vals s) = nat r
                  \<and> (\<forall>v \<in> set (vals s). \<exists>x. v = PyFloat x \<and> 0 \<le> x \<and> x < 1))))
   \<and> (2 ^ 63 \<le> r \<or> 2 ^ 63 \<le> c
        \<longrightarrow> (\<exists>msg. generate_random_dataframe L (Some r) (Some c) st
                      = (Inl (PyExc ''ValueError'' msg), st)))
   \<and> (\<forall>e. 0 \<le> r \<and> r < 2 ^ 63 \<and> 0 \<le> c \<and> c < 2 ^ 63
            \<and> allocate L (ArrayOf (nat r) (nat c)) = Some e
        \<longrightarrow> generate_random_dataframe L (Some r) (Some c) st = (Inl e, st))
   \<and> generate_random_dataframe L None None st = generate_random_dataframe L (Some 5) (Some 5) st"
proof (intro conjI impI allI)
  assume a: "0 \<le> r \<and> r < 2 ^ 63 \<and> 0 \<le> c \<and> c < 2 ^ 63
      \<and> allocate L (ArrayOf (nat r) (nat c)) = None
      \<and> allocate L (ListOf (nat c)) = None
      \<and> allocate L (FrameOf (nat r) (nat c)) = None
      \<and> (\<forall>i. 0 \<le> draws st i \<and> draws st i < 1)"
  then have n: "\<not> (r < - (2 ^ 63) \<or> 2 ^ 63 \<le> r \<or> c < - (2 ^ 63) \<or> 2 ^ 63 \<le> c)" "\<not> (r < 0 \<or> c < 0)"
    by auto
  from a show "\<exists>df st'. generate_random_dataframe L (Some r) (Some c) st = (Inr df, st')
           \<and> index_len df = nat r
           \<and> length (columns df) = nat c
           \<and> map fst (columns df) = map (\<lambda>i. ''Column'' @ str_int (int i + 1)) [0..<nat c]
           \<and> (\<forall>s \<in> snd ` set (columns df). length (vals s) = nat r
                  \<and> (\<forall>v \<in> set (vals s). \<exists>x. v = PyFloat x \<and> 0 \<le> x \<and> x < 1))"
    using n
    by (auto simp: generate_random_dataframe_def np_random_rand_def pd_DataFrame_def Let_def
          flat_index_bound)
next
  assume "2 ^ 63 \<le> r \<or> 2 ^ 63 \<le> c"
  then show "\<exists>msg. generate_random_dataframe L (Some r) (Some c) st
                      = (Inl (PyExc ''ValueError'' msg), st)"
    by (auto simp: generate_random_dataframe_def np_random_rand_def)
next
  fix e
  assume "0 \<le> r \<and> r < 2 ^ 63 \<and> 0 \<le> c \<and> c < 2 ^ 63
            \<and> allocate L (ArrayOf (nat r) (nat c)) = Some e"
  then show "generate_random_dataframe L (Some r) (Some c) st = (Inl e, st)"
    by (auto simp: generate_random_dataframe_def np_random_rand_def)
next
  show "generate_random_dataframe L None None st = generate_random_dataframe L (Some 5) (Some 5) st"
    by (simp add: generate_random_dataframe_def)
qed

text \<open>The theorem at two rows and three columns, every draw being one half, and at a
  million rows and a million columns on a machine that holds a million cells.\<close>

theorem generate_random_dataframe_shape_witness:
  "allocate demo_library (ArrayOf 2 3) = None
   \<and> allocate demo_library (ListOf 3) = None
   \<and> allocate demo_library (FrameOf 2 3) = None
   \<and> (\<exists>df st'. generate_random_dataframe demo_library (Some 2) (Some 3) world0 = (Inr df, st')
        \<and> index_len df = 2
        \<and> length (columns df) = 3
        \<and> map fst (columns df) = [''Column1'', ''Column2'', ''Column3''])
   \<and> allocate demo_library (ArrayOf 1000000 1000000) = Some (PyExc ''MemoryError'' ''Unable to allocate'')
   \<and> generate_random_dataframe demo_library (Some 1000000) (Some 1000000) world0
       = (Inl (PyExc ''MemoryError'' ''Unable to allocate''), world0)"
proof -
  have d: "\<forall>i. 0 \<le> draws world0 i \<and> draws world0 i < 1"
    by (simp add: world0_def)
  have u: "[0..<3] = [0, 1, 2]"
    by (simp add: upt_rec)
  have a: "allocate demo_library (ArrayOf 2 3) = None"
    "allocate demo_library (ListOf 3) = None"
    "allocate demo_library (FrameOf 2 3) = None"
    by (simp_all add: allocate_def default_sized_def demo_library_def demo_alloc_error_def)
  have m: "allocate demo_library (ArrayOf 1000000 1000000)
             = Some (PyExc ''MemoryError'' ''Unable to allocate'')"
    by (simp add: allocate_def default_sized_def demo_library_def demo_alloc_error_def)
  note t = generate_random_dataframe_shape [of 2 3 demo_library world0]
  from t a d
  obtain df st' where g: "generate_random_dataframe demo_library (Some 2) (Some 3) world0 = (Inr df, st')"
    and i: "index_len df = 2" and l: "length (columns df) = 3"
    and n: "map fst (columns df) = map (\<lambda>i. ''Column'' @ str_int (int i + 1)) [0..<3]"
    by auto
  from n u have "map fst (columns df) = [''Column1'', ''Column2'', ''Column3'']"
    by (simp add: str_int_123)
  with g i l
  have 1: "\<exists>df st'. generate_random_dataframe demo_library (Some 2) (Some 3) world0 = (Inr df, st')
        \<and> index_len df = 2
        \<and> length (columns df) = 3
        \<and> map fst (columns df) = [''Column1'', ''Column2'', ''Column3'']"
    by (intro exI [of _ df] exI [of _ st']) simp
  from generate_random_dataframe_shape [of 1000000 1000000 demo_library world0] m
  have 2: "generate_random_dataframe demo_library (Some 1000000) (Some 1000000) world0
       = (Inl (PyExc ''MemoryError'' ''Unable to allocate''), world0)"
    by simp
  from a m 1 2 show ?thesis by simp
qed

text \<open>
  Claim C3 as stated (no error for any counts \<open>r, c \<ge> 0\<close>) fails at \<open>r = 2 ^ 63\<close> and
  \<open>c = 0\<close>: the row count is no 64-bit index and numpy raises \<open>ValueError\<close>.
\<close>

theorem generate_random_dataframe_dimension_limit:
  "(0::int) \<le> 2 ^ 63
   \<and> generate_random_dataframe demo_library (Some (2 ^ 63)) (Some 0) world0
       = (Inl (PyExc ''ValueError'' ''Maximum allowed dimension exceeded''), world0)"
  by (simp add: generate_random_dataframe_def np_random_rand_def)

section \<open>Exit codes\<close>

text \<open>
  Claim C8. Whenever \<open>main\<close> returns rather than raises, it returns 0, in both scripts.
  In the demographics script this covers the run in which the scrape result is absent:
  the plotting branch is skipped and the state is the one the scraper left. The
  template's \<open>main\<close> always returns.
\<close>

theorem main_returns_zero:
  "(\<forall>rc st'. main_example_wiki_scraper L args st = (Inr rc, st') \<longrightarrow> rc = 0)
   \<and> (\<forall>st1. scrape_wikipedia_demographics L
               ''https://en.wikipedia.org/wiki/Demographics_of_the_world''
               (logger_info ''Starting script.'' st) = (Inr None, st1)
          \<longrightarrow> main_example_wiki_scraper L args st = (Inr 0, st1))
   \<and> (\<forall>rc st'. main_script_template L args st = (Inr rc, st') \<longrightarrow> rc = 0)
   \<and> (\<exists>st'. main_script_template L args st = (Inr 0, st'))"
proof (intro conjI allI impI)
  fix rc st' assume "main_example_wiki_scraper L args st = (Inr rc, st')"
  then show "rc = 0"
    by (auto simp: main_example_wiki_scraper_def Let_def
          split: prod.splits sum.splits option.splits)
next
  fix st1
  assume "scrape_wikipedia_demographics L
            ''https://en.wikipedia.org/wiki/Demographics_of_the_world''
            (logger_info ''Starting script.'' st) = (Inr None, st1)"
  then show "main_example_wiki_scraper L args st = (Inr 0, st1)"
    by (simp add: main_example_wiki_scraper_def Let_def)
next
  fix rc st' assume "main_script_template L args st = (Inr rc, st')"
  then show "rc = 0"
    by (auto simp: main_script_template_def Let_def split: prod.splits sum.splits)
next
  show "\<exists>st'. main_script_template L args st = (Inr 0, st')"
    by (simp add: main_script_template_def generate_random_dataframe_def np_random_rand_def
          pd_DataFrame_def allocate_def default_sized_def Let_def)
qed

text \<open>The theorem on a run that plots, on a run whose fetch fails, and on the template.\<close>

theorem main_returns_zero_witness:
  "(\<exists>st'. main_example_wiki_scraper demo_library \<lparr>debug = False\<rparr> world0 = (Inr 0, st'))
   \<and> (\<exists>st1. scrape_wikipedia_demographics offline_library
               ''https://en.wikipedia.org/wiki/Demographics_of_the_world''
               (logger_info ''Starting script.'' world0) = (Inr None, st1)
          \<and> main_example_wiki_scraper offline_library \<lparr>debug = False\<rparr> world0 = (Inr 0, st1))
   \<and> (\<exists>st'. main_script_template demo_library \<lparr>debug = False\<rparr> world0 = (Inr 0, st'))"
proof -
  let ?a = "\<lparr>debug = False\<rparr>"
  note t = main_returns_zero [of demo_library ?a world0]
  note o = main_returns_zero [of offline_library ?a world0]
  have "\<not> isl (fst (main_example_wiki_scraper demo_library ?a world0))"
    by code_simp
  then obtain rc st' where r: "main_example_wiki_scraper demo_library ?a world0 = (Inr rc, st')"
    by (metis prod.collapse sum.collapse(2))
  with t have "rc = 0" by blast
  with r have 1: "\<exists>st'. main_example_wiki_scraper demo_library ?a world0 = (Inr 0, st')"
    by blast
  have "fst (scrape_wikipedia_demographics offline_library
               ''https://en.wikipedia.org/wiki/Demographics_of_the_world''
               (logger_info ''Starting script.'' world0)) = Inr None"
    by code_simp
  then obtain st1 where s: "scrape_wikipedia_demographics offline_library
               ''https://en.wikipedia.org/wiki/Demographics_of_the_world''
               (logger_info ''Starting script.'' world0) = (Inr None, st1)"
    by (metis prod.collapse)
  with o have "main_example_wiki_scraper offline_library ?a world0 = (Inr 0, st1)"
    by blast
  with s have 2: "\<exists>st1. scrape_wikipedia_demographics offline_library
               ''https://en.wikipedia.org/wiki/Demographics_of_the_world''
               (logger_info ''Starting script.'' world0) = (Inr None, st1)
          \<and> main_example_wiki_scraper offline_library ?a world0 = (Inr 0, st1)"
    by blast
  from t have 3: "\<exists>st'. main_script_template demo_library ?a world0 = (Inr 0, st')"
    by blast
  from 1 2 3 show ?thesis by blast
qed

section \<open>apply\_inferred\_types: the frame\<close>

lemma coerce_iteration_frame:
  "next_ref (coerce_iteration L df c st) = next_ref st
   \<and> draws (coerce_iteration L df c st) = draws st
   \<and> (\<forall>r. r \<noteq> df \<longrightarrow> objs (coerce_iteration L df c st) r = objs st r)"
  by (simp add: coerce_iteration_def logger_error_def split: sum.splits)

lemma for_columns_frame:
  "next_ref (for_columns L df cs st) = next_ref st
   \<and> draws (for_columns L df cs st) = draws st
   \<and> (\<forall>r. r \<noteq> df \<longrightarrow> objs (for_columns L df cs st) r = objs st r)"
  by (induction cs arbitrary: st) (simp_all add: coerce_iteration_frame)

text \<open>
  Claim C9. \<open>apply_inferred_types\<close> returns the reference it was given: no object is
  created, every other object on the heap is left as it was, and whatever the coercion
  changes is changed in the object the caller's reference denotes.
\<close>

theorem apply_inferred_types_in_place:
  "\<exists>st'. apply_inferred_types L df st = (Inr df, st')
      \<and> next_ref st' = next_ref st
      \<and> (\<forall>r. r \<noteq> df \<longrightarrow> objs st' r = objs st r)"
  by (simp add: apply_inferred_types_def for_columns_frame)

text \<open>The theorem on a heap of two tables: the argument is changed in place (its integer
  columns are narrowed), the other table is not touched.\<close>

theorem apply_inferred_types_in_place_witness:
  "(1::nat) \<noteq> 0
   \<and> (\<exists>st'. apply_inferred_types demo_library 0 world1 = (Inr 0, st')
         \<and> next_ref st' = 2
         \<and> objs st' 1 = other_table
         \<and> objs st' 0 \<noteq> demo_table)"
proof -
  from apply_inferred_types_in_place [of demo_library 0 world1]
  obtain st' where a: "apply_inferred_types demo_library 0 world1 = (Inr 0, st')"
    and n: "next_ref st' = next_ref world1"
    and f: "\<forall>r. r \<noteq> 0 \<longrightarrow> objs st' r = objs world1 r"
    by blast
  from f have o: "objs st' 1 = other_table"
    by (simp add: world1_def world0_def)
  from n have n2: "next_ref st' = 2"
    by (simp add: world1_def world0_def)
  have "objs (snd (apply_inferred_types demo_library 0 world1)) 0 \<noteq> demo_table"
    by code_simp
  with a have "objs st' 0 \<noteq> demo_table" by simp
  with a o n2 show ?thesis by auto
qed

section \<open>infer\_data\_types\<close>

lemma getitem_present:
  "c \<in> fst ` set (columns d) \<Longrightarrow> \<exists>sel. getitem d c = Inr sel"
proof -
  assume "c \<in> fst ` set (columns d)"
  then have "filter (\<lambda>p. fst p = c) (columns d) \<noteq> []"
    by (auto simp: filter_empty_conv)
  then show ?thesis
    by (auto simp: getitem_def split: list.splits)
qed

lemma infer_loop_fold:
  "set cs \<subseteq> fst ` set (columns d) \<Longrightarrow>
   infer_loop L d cs acc = Inr (fold (\<lambda>c a. dict_setitem a c (column_label L d c)) cs acc)"
proof (induction cs arbitrary: acc)
  case Nil
  then show ?case by simp
next
  case (Cons c cs)
  then obtain sel where g: "getitem d c = Inr sel"
    using getitem_present [of c d] by auto
  from Cons show ?case
    by (simp add: g column_label_def)
qed

lemma dict_setitem_absent:
  "k \<notin> fst ` set d \<Longrightarrow> dict_setitem d k v = d @ [(k, v)]"
  by (induction d) auto

lemma dict_setitem_same:
  "(k, v) \<in> set d \<Longrightarrow> distinct (map fst d) \<Longrightarrow> dict_setitem d k v = d"
  by (induction d) (auto simp: rev_image_eqI)

lemma first_occurrences_filter:
  "first_occurrences (filter P xs) = filter P (first_occurrences xs)"
proof (induction xs rule: first_occurrences.induct)
  case 1
  then show ?case by simp
next
  case (2 x xs)
  have c: "filter (\<lambda>y. y \<noteq> x) (filter P xs) = filter P (filter (\<lambda>y. y \<noteq> x) xs)"
    by (simp add: conj_commute)
  show ?case
  proof (cases "P x")
    case True
    with 2 c show ?thesis by simp
  next
    case False
    have "filter P (filter (\<lambda>y. y \<noteq> x) xs) = filter P xs"
      using False by (auto intro: filter_cong)
    with 2 False show ?thesis by simp
  qed
qed

lemma set_first_occurrences: "set (first_occurrences xs) = set xs"
  by (induction xs rule: first_occurrences.induct) auto

lemma distinct_first_occurrences: "distinct (first_occurrences xs)"
  by (induction xs rule: first_occurrences.induct) (auto simp: set_first_occurrences)

lemma first_occurrences_distinct: "distinct xs \<Longrightarrow> first_occurrences xs = xs"
proof (induction xs)
  case Nil
  then show ?case by simp
next
  case (Cons x xs)
  then have "filter (\<lambda>y. y \<noteq> x) xs = xs"
    by (auto simp: filter_id_conv)
  with Cons show ?case by simp
qed

lemma fold_dict_setitem:
  assumes "distinct (map fst acc)" and "\<forall>(k, v) \<in> set acc. v = lab k"
  shows "fold (\<lambda>c a. dict_setitem a c (lab c)) cs acc
         = acc @ map (\<lambda>c. (c, lab c)) (first_occurrences (filter (\<lambda>c. c \<notin> fst ` set acc) cs))"
  using assms
proof (induction cs arbitrary: acc)
  case Nil
  then show ?case by simp
next
  case (Cons c cs)
  show ?case
  proof (cases "c \<in> fst ` set acc")
    case True
    then obtain v where "(c, v) \<in> set acc" by auto
    with Cons.prems have "(c, lab c) \<in> set acc" by auto
    with Cons.prems have "dict_setitem acc c (lab c) = acc"
      by (simp add: dict_setitem_same)
    with Cons True show ?thesis by simp
  next
    case False
    let ?acc = "acc @ [(c, lab c)]"
    have s: "dict_setitem acc c (lab c) = ?acc"
      using False by (simp add: dict_setitem_absent)
    have d: "distinct (map fst ?acc)" using Cons.prems False by auto
    have l: "\<forall>(k, v) \<in> set ?acc. v = lab k" using Cons.prems by auto
    have f: "filter (\<lambda>x. x \<notin> fst ` set ?acc) cs
             = filter (\<lambda>y. y \<noteq> c) (filter (\<lambda>x. x \<notin> fst ` set acc) cs)"
      by (auto intro: filter_cong)
    from Cons.IH [OF d l] s False f show ?thesis
      by (simp add: first_occurrences_filter conj_commute)
  qed
qed

lemma infer_loop_result:
  "infer_loop L d (map fst (columns d)) []
   = Inr (map (\<lambda>c. (c, column_label L d c)) (first_occurrences (map fst (columns d))))"
proof -
  have "set (map fst (columns d)) \<subseteq> fst ` set (columns d)" by simp
  then show ?thesis
    using fold_dict_setitem [of "[]" "column_label L d" "map fst (columns d)"]
    by (simp add: infer_loop_fold)
qed

lemma column_label_range: "column_label L d c \<in> {''Numeric'', ''String'', ''Object''}"
  by (simp add: column_label_def split: sum.splits)

lemma getitem_single:
  "columns_named c d = [(c, s)] \<Longrightarrow> getitem d c = Inr (ASeries s)"
  by (simp add: getitem_def columns_named_def)

text \<open>
  Claim C10, as amended. \<open>infer_data_types\<close> modifies no object that exists when it is
  called (its input among them) and returns a new table of two object columns named
  \<open>Column\<close> and \<open>Inferred Type\<close>. The table has one row per distinct column name of
  the input, in the order of first occurrence, because the labels are collected in a
  dict keyed by name; when the input's column names are distinct this is one row per
  column, in column order.
\<close>

theorem infer_data_types_fresh_table:
  assumes "df < next_ref st"
  shows "\<exists>st' lab. infer_data_types L df st = (Inr (next_ref st), st')
     \<and> next_ref st' = Suc (next_ref st)
     \<and> (\<forall>r. r < next_ref st \<longrightarrow> objs st' r = objs st r)
     \<and> objs st' df = objs st df
     \<and> index_len (objs st' (next_ref st))
         = length (first_occurrences (map fst (columns (objs st df))))
     \<and> columns (objs st' (next_ref st))
         = [(''Column'',
             \<lparr>dtype = ObjectDtype,
              vals = map PyStr (first_occurrences (map fst (columns (objs st df))))\<rparr>),
            (''Inferred Type'',
             \<lparr>dtype = ObjectDtype,
              vals = map (\<lambda>c. PyStr (lab c))
                       (first_occurrences (map fst (columns (objs st df))))\<rparr>)]
     \<and> (distinct (map fst (columns (objs st df)))
          \<longrightarrow> first_occurrences (map fst (columns (objs st df))) = map fst (columns (objs st df)))"
  using assms
  by (intro exI [of _ "snd (infer_data_types L df st)"] exI [of _ "column_label L (objs st df)"])
     (simp add: infer_data_types_def infer_loop_result alloc_def pd_DataFrame_items_def
        first_occurrences_distinct comp_def)

text \<open>The theorem on a table of three columns of distinct names.\<close>

theorem infer_data_types_fresh_table_witness:
  "0 < next_ref (world_of typed_table)
   \<and> distinct (map fst (columns (objs (world_of typed_table) 0)))
   \<and> (\<exists>st' lab. infer_data_types demo_library 0 (world_of typed_table) = (Inr 1, st')
        \<and> next_ref st' = 2
        \<and> objs st' 0 = typed_table
        \<and> index_len (objs st' 1) = 3
        \<and> columns (objs st' 1)
            = [(''Column'',
                \<lparr>dtype = ObjectDtype, vals = [PyStr ''a'', PyStr ''b'', PyStr ''c'']\<rparr>),
               (''Inferred Type'',
                \<lparr>dtype = ObjectDtype,
                 vals = [PyStr (lab ''a''), PyStr (lab ''b''), PyStr (lab ''c'')]\<rparr>)])"
proof -
  have n: "0 < next_ref (world_of typed_table)" "next_ref (world_of typed_table) = 1"
    by (simp_all add: world_of_def world0_def)
  have o: "objs (world_of typed_table) 0 = typed_table"
    by (simp add: world_of_def world0_def)
  have c: "map fst (columns typed_table) = [''a'', ''b'', ''c'']"
    by (simp add: typed_table_def)
  have d: "distinct (map fst (columns (objs (world_of typed_table) 0)))"
    by (simp add: o c)
  from infer_data_types_fresh_table [OF n(1), of demo_library] d
  show ?thesis
    by (simp add: n o c eval_nat_numeral)
qed

text \<open>
  Claim C10 as stated (one row per column of the input) fails on a table with two
  columns both named \<open>a\<close>: the result has one row.
\<close>

theorem infer_data_types_duplicate_names:
  "fst (infer_data_types demo_library 0 (world_of twin_table)) = Inr 1
   \<and> index_len (objs (snd (infer_data_types demo_library 0 (world_of twin_table))) 1) = 1
   \<and> length (columns (objs (world_of twin_table) 0)) = 2"
  by code_simp

text \<open>
  Claim C6, as amended, for pandas' dtype predicates. Every column name of the input
  gets exactly one row, labelled \<open>Numeric\<close>, \<open>String\<close> or \<open>Object\<close>. A column that is
  the only one of its name is labelled \<open>Numeric\<close> when its dtype is an integer dtype,
  \<open>String\<close> when its dtype is \<open>object\<close> and all its values are text, and never
  \<open>Numeric\<close> when its dtype is \<open>object\<close>, whatever it holds.
\<close>

theorem infer_data_types_labels:
  assumes "is_numeric_dtype L = pd_is_numeric_dtype"
    and "is_string_dtype L = pd_is_string_dtype"
  shows "\<exists>st' lab. infer_data_types L df st = (Inr (next_ref st), st')
     \<and> columns (objs st' (next_ref st))
         = [(''Column'',
             \<lparr>dtype = ObjectDtype,
              vals = map PyStr (first_occurrences (map fst (columns (objs st df))))\<rparr>),
            (''Inferred Type'',
             \<lparr>dtype = ObjectDtype,
              vals = map (\<lambda>c. PyStr (lab c))
                       (first_occurrences (map fst (columns (objs st df))))\<rparr>)]
     \<and> distinct (first_occurrences (map fst (columns (objs st df))))
     \<and> set (first_occurrences (map fst (columns (objs st df)))) = fst ` set (columns (objs st df))
     \<and> (\<forall>c. lab c \<in> {''Numeric'', ''String'', ''Object''})
     \<and> (\<forall>c s. columns_named c (objs st df) = [(c, s)] \<and> is_integer_dtype (dtype s)
            \<longrightarrow> lab c = ''Numeric'')
     \<and> (\<forall>c s. columns_named c (objs st df) = [(c, s)] \<and> dtype s = ObjectDtype
                 \<and> list_all is_str (vals s)
            \<longrightarrow> lab c = ''String'')
     \<and> (\<forall>c s. columns_named c (objs st df) = [(c, s)] \<and> dtype s = ObjectDtype
            \<longrightarrow> lab c \<noteq> ''Numeric'')"
proof (intro exI [of _ "snd (infer_data_types L df st)"]
             exI [of _ "column_label L (objs st df)"] conjI allI impI)
  show "infer_data_types L df st = (Inr (next_ref st), snd (infer_data_types L df st))"
    by (simp add: infer_data_types_def infer_loop_result alloc_def)
  show "columns (objs (snd (infer_data_types L df st)) (next_ref st))
         = [(''Column'',
             \<lparr>dtype = ObjectDtype,
              vals = map PyStr (first_occurrences (map fst (columns (objs st df))))\<rparr>),
            (''Inferred Type'',
             \<lparr>dtype = ObjectDtype,
              vals = map (\<lambda>c. PyStr (column_label L (objs st df) c))
                       (first_occurrences (map fst (columns (objs st df))))\<rparr>)]"
    by (simp add: infer_data_types_def infer_loop_result alloc_def pd_DataFrame_items_def comp_def)
  show "distinct (first_occurrences (map fst (columns (objs st df))))"
    by (rule distinct_first_occurrences)
  show "set (first_occurrences (map fst (columns (objs st df)))) = fst ` set (columns (objs st df))"
    by (simp add: set_first_occurrences)
  show "column_label L (objs st df) c \<in> {''Numeric'', ''String'', ''Object''}" for c
    by (rule column_label_range)
next
  fix c s
  assume "columns_named c (objs st df) = [(c, s)] \<and> is_integer_dtype (dtype s)"
  then show "column_label L (objs st df) c = ''Numeric''"
    using assms(1)
    by (auto simp: column_label_def getitem_single pd_is_numeric_dtype_def is_integer_dtype_def
          split: dtype.splits)
next
  fix c s
  assume "columns_named c (objs st df) = [(c, s)] \<and> dtype s = ObjectDtype
          \<and> list_all is_str (vals s)"
  then show "column_label L (objs st df) c = ''String''"
    using assms
    by (simp add: column_label_def getitem_single pd_is_numeric_dtype_def pd_is_string_dtype_def)
next
  fix c s
  assume "columns_named c (objs st df) = [(c, s)] \<and> dtype s = ObjectDtype"
  then show "column_label L (objs st df) c \<noteq> ''Numeric''"
    using assms(1)
    by (simp add: column_label_def getitem_single pd_is_numeric_dtype_def)
qed

text \<open>The theorem on a table with an int64 column, a column of text and a mixed column.\<close>

theorem infer_data_types_labels_witness:
  "is_numeric_dtype demo_library = pd_is_numeric_dtype
   \<and> is_string_dtype demo_library = pd_is_string_dtype
   \<and> columns_named ''a'' (objs (world_of typed_table) 0)
       = [(''a'', \<lparr>dtype = SInt W64, vals = [PyInt 1, PyInt 2, PyInt 3]\<rparr>)]
   \<and> is_integer_dtype (SInt W64)
   \<and> columns_named ''b'' (objs (world_of typed_table) 0)
       = [(''b'', \<lparr>dtype = ObjectDtype, vals = [PyStr ''x'', PyStr ''y'', PyStr ''z'']\<rparr>)]
   \<and> list_all is_str [PyStr ''x'', PyStr ''y'', PyStr ''z'']
   \<and> (\<exists>st' lab. infer_data_types demo_library 0 (world_of typed_table) = (Inr 1, st')
         \<and> columns (objs st' 1)
            = [(''Column'',
                \<lparr>dtype = ObjectDtype, vals = [PyStr ''a'', PyStr ''b'', PyStr ''c'']\<rparr>),
               (''Inferred Type'',
                \<lparr>dtype = ObjectDtype,
                 vals = [PyStr ''Numeric'', PyStr ''String'', PyStr (lab ''c'')]\<rparr>)]
         \<and> lab ''c'' \<in> {''Numeric'', ''String'', ''Object''}
         \<and> lab ''c'' \<noteq> ''Numeric'')"
proof -
  let ?a = "\<lparr>dtype = SInt W64, vals = [PyInt 1, PyInt 2, PyInt 3]\<rparr>"
  let ?b = "\<lparr>dtype = ObjectDtype, vals = [PyStr ''x'', PyStr ''y'', PyStr ''z'']\<rparr>"
  have l: "is_numeric_dtype demo_library = pd_is_numeric_dtype"
    "is_string_dtype demo_library = pd_is_string_dtype"
    by (simp_all add: demo_library_def)
  have n: "next_ref (world_of typed_table) = 1"
    by (simp add: world_of_def world0_def)
  have o: "objs (world_of typed_table) 0 = typed_table"
    by (simp add: world_of_def world0_def)
  have c: "map fst (columns typed_table) = [''a'', ''b'', ''c'']"
    by (simp add: typed_table_def)
  have a: "columns_named ''a'' (objs (world_of typed_table) 0) = [(''a'', ?a)]"
    and b: "columns_named ''b'' (objs (world_of typed_table) 0) = [(''b'', ?b)]"
    unfolding o columns_named_def by (simp_all add: typed_table_def)
  have i: "is_integer_dtype (dtype ?a)" "dtype ?b = ObjectDtype" "list_all is_str (vals ?b)"
    by (simp_all add: is_integer_dtype_def is_str_def)
  from infer_data_types_labels [OF l, of 0 "world_of typed_table"]
  obtain st' lab where r: "infer_data_types demo_library 0 (world_of typed_table) = (Inr 1, st')"
    and k: "columns (objs st' 1)
         = [(''Column'', \<lparr>dtype = ObjectDtype, vals = [PyStr ''a'', PyStr ''b'', PyStr ''c'']\<rparr>),
            (''Inferred Type'',
             \<lparr>dtype = ObjectDtype, vals = [PyStr (lab ''a''), PyStr (lab ''b''), PyStr (lab ''c'')]\<rparr>)]"
    and g: "\<forall>c. lab c \<in> {''Numeric'', ''String'', ''Object''}"
    and na: "\<forall>c s. columns_named c (objs (world_of typed_table) 0) = [(c, s)]
                 \<and> is_integer_dtype (dtype s) \<longrightarrow> lab c = ''Numeric''"
    and sa: "\<forall>c s. columns_named c (objs (world_of typed_table) 0) = [(c, s)]
                 \<and> dtype s = ObjectDtype \<and> list_all is_str (vals s) \<longrightarrow> lab c = ''String''"
    and oa: "\<forall>c s. columns_named c (objs (world_of typed_table) 0) = [(c, s)]
                 \<and> dtype s = ObjectDtype \<longrightarrow> lab c \<noteq> ''Numeric''"
    unfolding n o c by (auto simp: o c)
  have "columns_named ''c'' (objs (world_of typed_table) 0)
          = [(''c'', \<lparr>dtype = ObjectDtype, vals = [PyStr ''x'', PyInt 2, PyNone]\<rparr>)]"
    unfolding o columns_named_def by (simp add: typed_table_def)
  with oa have nc: "lab ''c'' \<noteq> ''Numeric''" by fastforce
  from g have gc: "lab ''c'' \<in> {''Numeric'', ''String'', ''Object''}" by blast
  from na a i have "lab ''a'' = ''Numeric''" by blast
  moreover from sa b i have "lab ''b'' = ''String''" by blast
  ultimately have "columns (objs st' 1)
            = [(''Column'',
                \<lparr>dtype = ObjectDtype, vals = [PyStr ''a'', PyStr ''b'', PyStr ''c'']\<rparr>),
               (''Inferred Type'',
                \<lparr>dtype = ObjectDtype,
                 vals = [PyStr ''Numeric'', PyStr ''String'', PyStr (lab ''c'')]\<rparr>)]"
    using k by simp
  with r gc l a b i nc show ?thesis
    by (intro conjI exI [of _ st'] exI [of _ lab]) simp_all
qed

text \<open>
  Claim C6 as stated (every column whose values are all integers is Numeric) fails on
  a column of dtype \<open>object\<close> that holds the integers 1 and 2: \<open>is_numeric_dtype\<close> looks at
  the dtype, not at the values, and the label is \<open>Object\<close>.
\<close>

theorem infer_data_types_boxed_integers:
  "list_all is_int (vals (snd (hd (columns (objs (world_of boxed_table) 0)))))
   \<and> fst (infer_data_types demo_library 0 (world_of boxed_table)) = Inr 1
   \<and> columns (objs (snd (infer_data_types demo_library 0 (world_of boxed_table))) 1)
       = [(''Column'', \<lparr>dtype = ObjectDtype, vals = [PyStr ''n'']\<rparr>),
          (''Inferred Type'', \<lparr>dtype = ObjectDtype, vals = [PyStr ''Object'']\<rparr>)]"
  by code_simp

section \<open>apply\_inferred\_types: a column whose coercion raises\<close>

subsection \<open>Assignment to a column touches the columns of that name only\<close>

lemma replace_named_names: "map fst (replace_named k new cs) = map fst cs"
  by (induction k new cs rule: replace_named.induct) (auto split: list.splits)

lemma replace_named_other:
  "c \<noteq> k \<Longrightarrow> filter (\<lambda>p. fst p = c) (replace_named k new cs) = filter (\<lambda>p. fst p = c) cs"
  by (induction k new cs rule: replace_named.induct) (auto split: list.splits)

lemma replace_named_filter:
  "filter (\<lambda>p. fst p = k) (replace_named k new cs) = replace_named k new (filter (\<lambda>p. fst p = k) cs)"
  by (induction k new cs rule: replace_named.induct) (auto split: list.splits)

lemma map_fst_replace_one:
  "map fst (map (\<lambda>p. if fst p = c then (c, s) else p) cs) = map fst cs"
  by (induction cs) auto

lemma filter_replace_one:
  "c' \<noteq> c \<Longrightarrow> filter (\<lambda>p. fst p = c') (map (\<lambda>p. if fst p = c then (c, s) else p) cs)
     = filter (\<lambda>p. fst p = c') cs"
  by (induction cs) auto

lemma filter_replace_same:
  "filter (\<lambda>p. fst p = c) (map (\<lambda>p. if fst p = c then (c, s) else p) cs)
     = map (\<lambda>p. (c, s)) (filter (\<lambda>p. fst p = c) cs)"
  by (induction cs) auto

lemma setitem_present:
  assumes "c \<in> fst ` set (columns d)"
  shows "setitem d c v =
     (case v of
        ASeries s \<Rightarrow> Inr (d\<lparr>columns := map (\<lambda>p. if fst p = c then (c, s) else p) (columns d)\<rparr>)
      | AFrame f \<Rightarrow>
          if length (columns f) \<noteq> length (filter (\<lambda>p. fst p = c) (columns d))
          then Inl (PyExc ''ValueError'' ''Columns must be same length as key'')
          else Inr (d\<lparr>columns := replace_named c (map snd (columns f)) (columns d)\<rparr>))"
  using assms by (simp add: setitem_def split: selection.splits)

lemma setitem_frame:
  assumes "setitem d c v = Inr d'" and "c \<in> fst ` set (columns d)"
  shows "index_len d' = index_len d"
    and "map fst (columns d') = map fst (columns d)"
    and "c' \<noteq> c \<Longrightarrow> columns_named c' d' = columns_named c' d"
proof -
  note s = assms(1) [unfolded setitem_present [OF assms(2)]]
  show "index_len d' = index_len d"
    using s by (cases v) (auto split: if_splits)
  show "map fst (columns d') = map fst (columns d)"
    using s
    by (cases v) (auto simp: replace_named_names map_fst_replace_one split: if_splits)
  show "columns_named c' d' = columns_named c' d" if "c' \<noteq> c"
    using s that
    by (cases v)
       (auto simp: columns_named_def replace_named_other filter_replace_one split: if_splits)
qed

lemma setitem_group:
  assumes "c \<in> fst ` set (columns d)"
  shows "map_sum id (columns_named c) (setitem d c v) = set_group c v (columns_named c d)"
  unfolding setitem_present [OF assms]
  by (cases v)
     (auto simp: set_group_def columns_named_def filter_replace_same replace_named_filter)

lemma getitem_cong:
  assumes "index_len d1 = index_len d2" and "columns_named c d1 = columns_named c d2"
  shows "getitem d1 c = getitem d2 c"
proof -
  have "d1\<lparr>columns := x\<rparr> = d2\<lparr>columns := x\<rparr>" for x
    using assms(1) by (cases d1, cases d2) simp
  with assms(2) show ?thesis
    by (simp add: getitem_def columns_named_def split: list.splits)
qed

lemma columns_named_present:
  "c \<in> fst ` set (columns d) \<longleftrightarrow> columns_named c d \<noteq> []"
  by (auto simp: columns_named_def filter_empty_conv)

text \<open>One iteration sees the table only through the columns of the name it coerces.\<close>

lemma coerce_column_cong:
  assumes i: "index_len d1 = index_len d2"
    and g: "columns_named c d1 = columns_named c d2"
  shows "map_sum id (columns_named c) (coerce_column L d1 c)
         = map_sum id (columns_named c) (coerce_column L d2 c)"
proof (cases "c \<in> fst ` set (columns d1)")
  case False
  then have "columns_named c d1 = []" by (simp add: columns_named_present)
  with g have "getitem d1 c = Inl (PyExc ''KeyError'' c)" "getitem d2 c = Inl (PyExc ''KeyError'' c)"
    by (simp_all add: getitem_def columns_named_def)
  then show ?thesis by (simp add: coerce_column_def seq_def)
next
  case True
  with g have p: "c \<in> fst ` set (columns d1)" "c \<in> fst ` set (columns d2)"
    by (simp_all add: columns_named_present)
  have e: "getitem d1 c = getitem d2 c" using i g by (rule getitem_cong)
  have s: "map_sum id (columns_named c) (setitem d1 c v)
           = map_sum id (columns_named c) (setitem d2 c v)" for v
    using p g by (simp add: setitem_group)
  have q: "map_sum id (columns_named c) (seq m (\<lambda>v. setitem d1 c v))
           = map_sum id (columns_named c) (seq m (\<lambda>v. setitem d2 c v))" for m
    using s by (cases m) (simp_all add: seq_def)
  show ?thesis
    unfolding coerce_column_def e
    by (cases "getitem d2 c"; simp add: seq_def g q [unfolded seq_def] split: sum.splits)
qed

lemma coerce_column_frame:
  assumes "coerce_column L d c = Inr d'"
  shows "index_len d' = index_len d"
    and "map fst (columns d') = map fst (columns d)"
    and "c' \<noteq> c \<Longrightarrow> columns_named c' d' = columns_named c' d"
proof -
  from assms obtain sel where "getitem d c = Inr sel"
    by (auto simp: coerce_column_def seq_def split: sum.splits)
  then have p: "c \<in> fst ` set (columns d)"
    by (auto simp: getitem_def columns_named_present [unfolded columns_named_def]
        split: list.splits)
  from assms have "d' = d \<or> (\<exists>v. setitem d c v = Inr d')"
    by (auto simp: coerce_column_def seq_def split: sum.splits if_splits)
  then show "index_len d' = index_len d"
    and "map fst (columns d') = map fst (columns d)"
    and "c' \<noteq> c \<Longrightarrow> columns_named c' d' = columns_named c' d"
    using setitem_frame [OF _ p] by auto
qed


subsection \<open>The loop\<close>

lemma objs_coerce_iteration:
  "objs (coerce_iteration L df c st) df
     = (case coerce_column L (objs st df) c of Inr d' \<Rightarrow> d' | Inl e \<Rightarrow> objs st df)"
  by (simp add: coerce_iteration_def logger_error_def split: sum.splits)

lemma coerce_iteration_other:
  "c' \<noteq> c \<Longrightarrow>
   columns_named c' (objs (coerce_iteration L df c st) df) = columns_named c' (objs st df)"
  by (auto simp: objs_coerce_iteration coerce_column_frame split: sum.splits)

lemma coerce_iteration_shape:
  "index_len (objs (coerce_iteration L df c st) df) = index_len (objs st df)
   \<and> map fst (columns (objs (coerce_iteration L df c st) df)) = map fst (columns (objs st df))"
  by (auto simp: objs_coerce_iteration coerce_column_frame split: sum.splits)

lemma for_columns_shape:
  "index_len (objs (for_columns L df cs st) df) = index_len (objs st df)
   \<and> map fst (columns (objs (for_columns L df cs st) df)) = map fst (columns (objs st df))"
  by (induction cs arbitrary: st) (simp_all add: coerce_iteration_shape)

lemma for_columns_other:
  "c \<notin> set cs \<Longrightarrow>
   columns_named c (objs (for_columns L df cs st) df) = columns_named c (objs st df)"
  by (induction cs arbitrary: st) (simp_all add: coerce_iteration_other)

lemma logged_coerce_iteration: "set (logged st) \<subseteq> set (logged (coerce_iteration L df c st))"
  by (auto simp: coerce_iteration_def logger_error_def split: sum.splits)

lemma logged_for_columns: "set (logged st) \<subseteq> set (logged (for_columns L df cs st))"
proof (induction cs arbitrary: st)
  case Nil
  then show ?case by simp
next
  case (Cons c cs)
  from logged_coerce_iteration Cons [of "coerce_iteration L df c st"] show ?case
    by (simp only: for_columns.simps) (rule subset_trans)
qed

lemma for_columns_append:
  "for_columns L df (xs @ ys) st = for_columns L df ys (for_columns L df xs st)"
  by (induction xs arbitrary: st) simp_all

text \<open>An iteration raises on the table as it stands exactly when it raises on a table
  with the same columns of that name.\<close>

lemma coerce_column_raises_cong:
  assumes "index_len d1 = index_len d2" and "columns_named c d1 = columns_named c d2"
    and "coerce_column L d2 c = Inl e"
  shows "coerce_column L d1 c = Inl e"
  using coerce_column_cong [OF assms(1,2), of L] assms(3)
  by (cases "coerce_column L d1 c") simp_all

lemma coerce_column_returns_cong:
  assumes "index_len d1 = index_len d2" and "columns_named c d1 = columns_named c d2"
    and "coerce_column L d2 c = Inr d'"
  shows "\<exists>d''. coerce_column L d1 c = Inr d'' \<and> columns_named c d'' = columns_named c d'"
  using coerce_column_cong [OF assms(1,2), of L] assms(3)
  by (cases "coerce_column L d1 c") simp_all

lemma for_columns_raising:
  assumes "index_len (objs st df) = index_len d0"
    and "columns_named c (objs st df) = columns_named c d0"
    and "coerce_column L d0 c = Inl e"
  shows "columns_named c (objs (for_columns L df cs st) df) = columns_named c d0
     \<and> (c \<in> set cs \<longrightarrow>
          (ERROR, ''Could not convert column '' @ c @ ''. Error: '' @ exc_msg e)
            \<in> set (logged (for_columns L df cs st)))"
  using assms(1,2)
proof (induction cs arbitrary: st)
  case Nil
  then show ?case by simp
next
  case (Cons c1 cs)
  let ?st1 = "coerce_iteration L df c1 st"
  show ?case
  proof (cases "c1 = c")
    case True
    have r: "coerce_column L (objs st df) c = Inl e"
      using Cons.prems assms(3) by (rule coerce_column_raises_cong)
    then have o: "objs ?st1 df = objs st df"
      and l: "(ERROR, ''Could not convert column '' @ c @ ''. Error: '' @ exc_msg e)
                \<in> set (logged ?st1)"
      using True by (simp_all add: coerce_iteration_def logger_error_def)
    from Cons.IH [of ?st1] Cons.prems o
    have "columns_named c (objs (for_columns L df cs ?st1) df) = columns_named c d0"
      by simp
    moreover from l logged_for_columns [of ?st1 L df cs]
    have "(ERROR, ''Could not convert column '' @ c @ ''. Error: '' @ exc_msg e)
            \<in> set (logged (for_columns L df cs ?st1))"
      by blast
    ultimately show ?thesis by simp
  next
    case False
    then have "columns_named c (objs ?st1 df) = columns_named c d0"
      using Cons.prems by (simp add: coerce_iteration_other)
    moreover have "index_len (objs ?st1 df) = index_len d0"
      using Cons.prems by (simp add: coerce_iteration_shape)
    ultimately show ?thesis
      using Cons.IH [of ?st1] False by auto
  qed
qed

lemma for_columns_once:
  assumes "c \<notin> set before" and "c \<notin> set after"
    and "coerce_column L (objs st df) c = Inr d'"
  shows "columns_named c (objs (for_columns L df (before @ c # after) st) df) = columns_named c d'"
proof -
  let ?sa = "for_columns L df before st"
  have "index_len (objs ?sa df) = index_len (objs st df)"
    by (simp add: for_columns_shape)
  moreover have "columns_named c (objs ?sa df) = columns_named c (objs st df)"
    using assms(1) by (rule for_columns_other)
  ultimately obtain d'' where "coerce_column L (objs ?sa df) c = Inr d''"
    and "columns_named c d'' = columns_named c d'"
    using coerce_column_returns_cong [OF _ _ assms(3)] by blast
  then have "columns_named c (objs (coerce_iteration L df c ?sa) df) = columns_named c d'"
    by (simp add: objs_coerce_iteration)
  with assms(2) show ?thesis
    by (simp add: for_columns_append for_columns_other)
qed

lemma only_column_split:
  assumes "columns_named c d = [(c, s)]"
  shows "\<exists>before after. map fst (columns d) = before @ c # after
           \<and> c \<notin> set before \<and> c \<notin> set after"
proof -
  from assms obtain us vs where u: "columns d = us @ (c, s) # vs"
    and a: "\<forall>u \<in> set us. fst u \<noteq> c" and b: "filter (\<lambda>p. fst p = c) vs = []"
    unfolding columns_named_def filter_eq_Cons_iff by auto
  from b have "\<forall>v \<in> set vs. fst v \<noteq> c"
    by (simp add: filter_empty_conv)
  with a have "c \<notin> set (map fst us)" "c \<notin> set (map fst vs)"
    by auto
  with u show ?thesis
    by (intro exI [of _ "map fst us"] exI [of _ "map fst vs"]) simp
qed

text \<open>
  Claim C5. If the coercion of a column raises, \<open>apply_inferred_types\<close> catches the
  exception and logs it as an error, leaves the columns of that name as they were, and
  goes on: it returns the dataset, with the same column names, and every other column
  (the only one of its name) holds what its own coercion assigns to it.
\<close>

theorem coercion_failure_contained:
  assumes "c \<in> fst ` set (columns (objs st df))"
    and "coerce_column L (objs st df) c = Inl e"
  shows "\<exists>st'. apply_inferred_types L df st = (Inr df, st')
     \<and> columns_named c (objs st' df) = columns_named c (objs st df)
     \<and> (ERROR, ''Could not convert column '' @ c @ ''. Error: '' @ exc_msg e) \<in> set (logged st')
     \<and> map fst (columns (objs st' df)) = map fst (columns (objs st df))
     \<and> (\<forall>c' s' d'. columns_named c' (objs st df) = [(c', s')]
                    \<and> coerce_column L (objs st df) c' = Inr d'
           \<longrightarrow> columns_named c' (objs st' df) = columns_named c' d')"
proof -
  let ?cs = "map fst (columns (objs st df))"
  let ?st' = "for_columns L df ?cs st"
  have 1: "apply_inferred_types L df st = (Inr df, ?st')"
    by (simp add: apply_inferred_types_def)
  from assms(1) have "c \<in> set ?cs" by simp
  with for_columns_raising [OF refl refl assms(2), of ?cs]
  have 2: "columns_named c (objs ?st' df) = columns_named c (objs st df)"
    and 3: "(ERROR, ''Could not convert column '' @ c @ ''. Error: '' @ exc_msg e)
              \<in> set (logged ?st')"
    by blast+
  have 4: "map fst (columns (objs ?st' df)) = ?cs"
    by (simp add: for_columns_shape)
  have 5: "columns_named c' (objs ?st' df) = columns_named c' d'"
    if "columns_named c' (objs st df) = [(c', s')] \<and> coerce_column L (objs st df) c' = Inr d'"
    for c' s' d'
  proof -
    from that only_column_split obtain before after
      where "?cs = before @ c' # after" "c' \<notin> set before" "c' \<notin> set after"
      by blast
    with that for_columns_once [of c' before after L st df d'] show ?thesis
      by simp
  qed
  from 1 2 3 4 5 show ?thesis by blast
qed

text \<open>The theorem with a \<open>to_numeric\<close> that raises: the integer column \<open>a\<close> is left as
  it was and the error is logged; the text column \<open>b\<close> after it is still converted.\<close>

theorem coercion_failure_contained_witness:
  "''a'' \<in> fst ` set (columns (objs (world_of ragged_table) 0))
   \<and> coerce_column broken_library (objs (world_of ragged_table) 0) ''a''
       = Inl (PyExc ''TypeError'' ''unsupported operand'')
   \<and> columns_named ''b'' (objs (world_of ragged_table) 0)
       = [(''b'', \<lparr>dtype = ObjectDtype, vals = [PyStr ''x'', PyNone]\<rparr>)]
   \<and> (\<exists>st'. apply_inferred_types broken_library 0 (world_of ragged_table) = (Inr 0, st')
         \<and> columns_named ''a'' (objs st' 0)
             = [(''a'', \<lparr>dtype = SInt W64, vals = [PyInt 1, PyInt 2]\<rparr>)]
         \<and> (ERROR, ''Could not convert column a. Error: unsupported operand'') \<in> set (logged st')
         \<and> map fst (columns (objs st' 0)) = [''a'', ''b'']
         \<and> columns_named ''b'' (objs st' 0)
             = [(''b'', \<lparr>dtype = ObjectDtype, vals = [PyStr ''x'', PyStr ''None'']\<rparr>)])"
proof -
  let ?w = "world_of ragged_table"
  let ?d' = "\<lparr>index_len = 2,
      columns = [(''a'', \<lparr>dtype = SInt W64, vals = [PyInt 1, PyInt 2]\<rparr>),
                 (''b'', \<lparr>dtype = ObjectDtype, vals = [PyStr ''x'', PyStr ''None'']\<rparr>)]\<rparr>"
  have o: "objs ?w 0 = ragged_table"
    by (simp add: world_of_def world0_def)
  have p: "''a'' \<in> fst ` set (columns (objs ?w 0))"
    unfolding o by (simp add: ragged_table_def)
  have r: "coerce_column broken_library (objs ?w 0) ''a''
             = Inl (PyExc ''TypeError'' ''unsupported operand'')"
    unfolding o by code_simp
  have a: "columns_named ''a'' (objs ?w 0)
             = [(''a'', \<lparr>dtype = SInt W64, vals = [PyInt 1, PyInt 2]\<rparr>)]"
    and b: "columns_named ''b'' (objs ?w 0)
             = [(''b'', \<lparr>dtype = ObjectDtype, vals = [PyStr ''x'', PyNone]\<rparr>)]"
    and n: "map fst (columns (objs ?w 0)) = [''a'', ''b'']"
    unfolding o columns_named_def by (simp_all add: ragged_table_def)
  have c: "coerce_column broken_library (objs ?w 0) ''b'' = Inr ?d'"
    unfolding o by code_simp
  have d: "columns_named ''b'' ?d'
             = [(''b'', \<lparr>dtype = ObjectDtype, vals = [PyStr ''x'', PyStr ''None'']\<rparr>)]"
    by (simp add: columns_named_def)
  from coercion_failure_contained [OF p r]
  obtain st' where 1: "apply_inferred_types broken_library 0 ?w = (Inr 0, st')"
    and 2: "columns_named ''a'' (objs st' 0) = columns_named ''a'' (objs ?w 0)"
    and 3: "(ERROR, ''Could not convert column '' @ ''a'' @ ''. Error: ''
               @ exc_msg (PyExc ''TypeError'' ''unsupported operand'')) \<in> set (logged st')"
    and 4: "map fst (columns (objs st' 0)) = map fst (columns (objs ?w 0))"
    and 5: "\<forall>c' s' d'. columns_named c' (objs ?w 0) = [(c', s')]
                    \<and> coerce_column broken_library (objs ?w 0) c' = Inr d'
           \<longrightarrow> columns_named c' (objs st' 0) = columns_named c' d'"
    by blast
  from 5 b c have "columns_named ''b'' (objs st' 0) = columns_named ''b'' ?d'"
    by blast
  with 1 2 3 4 a b n d p r show ?thesis
    by (intro conjI exI [of _ st']) simp_all
qed

section \<open>plot\_world\_population: the derived column\<close>

lemma setitem_series_group:
  assumes "setitem d c (ASeries m) = Inr d'"
  shows "columns_named c d' \<noteq> [] \<and> (\<forall>p \<in> set (columns_named c d'). snd p = m)"
proof (cases "c \<in> fst ` set (columns d)")
  case True
  with assms have "d' = d\<lparr>columns := map (\<lambda>p. if fst p = c then (c, m) else p) (columns d)\<rparr>"
    by (simp add: setitem_def)
  then have "columns_named c d' = map (\<lambda>p. (c, m)) (columns_named c d)"
    by (simp add: columns_named_def filter_replace_same)
  moreover from True have "columns_named c d \<noteq> []"
    by (simp add: columns_named_present)
  ultimately show ?thesis by auto
next
  case False
  with assms have "d' = d\<lparr>columns := columns d @ [(c, m)]\<rparr>"
    by (simp add: setitem_def)
  moreover from False have "columns_named c d = []"
    by (simp add: columns_named_present)
  ultimately have "columns_named c d' = [(c, m)]"
    by (simp add: columns_named_def)
  then show ?thesis by simp
qed

lemma setitem_series_returns: "\<exists>d'. setitem d c (ASeries m) = Inr d'"
  by (simp add: setitem_def)

lemma setitem_series_other:
  assumes "setitem d c (ASeries m) = Inr d'" and "c' \<noteq> c"
  shows "columns_named c' d' = columns_named c' d"
proof (cases "c \<in> fst ` set (columns d)")
  case True
  with assms(1) have "d' = d\<lparr>columns := map (\<lambda>p. if fst p = c then (c, m) else p) (columns d)\<rparr>"
    by (simp add: setitem_def)
  with assms(2) show ?thesis
    by (simp add: columns_named_def filter_replace_one)
next
  case False
  with assms(1) have "d' = d\<lparr>columns := columns d @ [(c, m)]\<rparr>"
    by (simp add: setitem_def)
  with assms(2) show ?thesis
    by (simp add: columns_named_def)
qed

text \<open>
  Claim C2, as amended. On a dataset that has a \<open>Year\<close> column which \<open>astype(str)\<close>
  and \<open>to_datetime\<close> convert, and one \<open>World Population (in thousands)\<close> column,
  \<open>plot_world_population\<close> leaves in the dataset, as
  \<open>World Population (in millions)\<close>, the column that the division of the thousands
  column by 1000 returns, whether or not the plotting that follows raises. For pandas'
  division of a column of an integer dtype of 16 bits or more, or of dtype float64,
  every entry of it is the corresponding thousands entry divided by 1000 in float64
  arithmetic. When the rounding to float64 leaves the whole numbers up to \<open>2 ^ 53\<close>
  as they are, as it does, the column \<open>[1000, 2000]\<close> gives \<open>[1.0, 2.0]\<close>.
\<close>

theorem plot_world_population_millions:
  assumes "getitem (objs st df) ''Year'' = Inr y"
    and "astype_str L y = Inr s"
    and "to_datetime L s = Inr (ASeries d)"
    and "columns_named ''World Population (in thousands)'' (objs st df)
           = [(''World Population (in thousands)'', t)]"
  shows "(\<forall>m. truediv L (ASeries t) 1000 = Inr (ASeries m) \<longrightarrow>
            (\<exists>res st'. plot_world_population L df st = (res, st')
               \<and> columns_named ''World Population (in millions)'' (objs st' df) \<noteq> []
               \<and> (\<forall>p \<in> set (columns_named ''World Population (in millions)'' (objs st' df)).
                     snd p = m)))
     \<and> (truediv L = pd_truediv r64 rest \<and> holds_numbers t \<longrightarrow>
            (\<exists>res st'. plot_world_population L df st = (res, st')
               \<and> columns_named ''World Population (in millions)'' (objs st' df) \<noteq> []
               \<and> (\<forall>p \<in> set (columns_named ''World Population (in millions)'' (objs st' df)).
                     vals (snd p) = map (\<lambda>v. cell_truediv r64 v 1000) (vals t))
               \<and> ((\<forall>i. \<bar>i\<bar> \<le> 2 ^ 53 \<longrightarrow> r64 (real_of_int i) = real_of_int i)
                    \<and> vals t = [PyInt 1000, PyInt 2000]
                  \<longrightarrow> (\<forall>p \<in> set (columns_named ''World Population (in millions)'' (objs st' df)).
                         vals (snd p) = [PyFloat 1, PyFloat 2]))))"
proof -
  let ?th = "''World Population (in thousands)''"
  let ?mi = "''World Population (in millions)''"
  obtain df1 where 1: "setitem (objs st df) ''Year'' (ASeries d) = Inr df1"
    using setitem_series_returns by blast
  have ne: "?th \<noteq> ''Year''" by simp
  from setitem_series_other [OF 1 ne] assms(4)
  have "columns_named ?th df1 = [(?th, t)]" by simp
  then have g: "getitem df1 ?th = Inr (ASeries t)" by (rule getitem_single)
  have gen: "\<exists>res st'. plot_world_population L df st = (res, st')
               \<and> columns_named ?mi (objs st' df) \<noteq> []
               \<and> (\<forall>p \<in> set (columns_named ?mi (objs st' df)). snd p = m)"
    if q: "truediv L (ASeries t) 1000 = Inr (ASeries m)" for m
  proof -
    obtain df2 where 2: "setitem df1 ?mi (ASeries m) = Inr df2"
      using setitem_series_returns by blast
    let ?st2 = "st\<lparr>objs := (objs st)(df := df2)\<rparr>"
    have "\<exists>res. plot_world_population L df st = (res, ?st2)"
      using assms(1,2,3) 1 g q 2
      by (simp add: plot_world_population_def seq_def Let_def)
    moreover from setitem_series_group [OF 2]
    have "columns_named ?mi (objs ?st2 df) \<noteq> []
       \<and> (\<forall>p \<in> set (columns_named ?mi (objs ?st2 df)). snd p = m)"
      by simp
    ultimately show ?thesis by blast
  qed
  have e: "map (\<lambda>v. cell_truediv r64 v 1000) (vals t) = [PyFloat 1, PyFloat 2]"
    if w: "\<forall>i. \<bar>i\<bar> \<le> 2 ^ 53 \<longrightarrow> r64 (real_of_int i) = real_of_int i"
      and t: "vals t = [PyInt 1000, PyInt 2000]"
  proof -
    from w [rule_format, of 1000] have a: "r64 1000 = 1000" by simp
    from w [rule_format, of 2000] have b: "r64 2000 = 2000" by simp
    from w [rule_format, of 1] have c: "r64 1 = 1" by simp
    from w [rule_format, of 2] have d: "r64 2 = 2" by simp
    from t show ?thesis
      by (simp add: cell_truediv_def a b c d)
  qed
  have mod: "\<exists>res st'. plot_world_population L df st = (res, st')
               \<and> columns_named ?mi (objs st' df) \<noteq> []
               \<and> (\<forall>p \<in> set (columns_named ?mi (objs st' df)).
                     vals (snd p) = map (\<lambda>v. cell_truediv r64 v 1000) (vals t))
               \<and> ((\<forall>i. \<bar>i\<bar> \<le> 2 ^ 53 \<longrightarrow> r64 (real_of_int i) = real_of_int i)
                    \<and> vals t = [PyInt 1000, PyInt 2000]
                  \<longrightarrow> (\<forall>p \<in> set (columns_named ?mi (objs st' df)).
                         vals (snd p) = [PyFloat 1, PyFloat 2]))"
    if h: "truediv L = pd_truediv r64 rest \<and> holds_numbers t"
  proof -
    let ?m = "\<lparr>dtype = Float64, vals = map (\<lambda>v. cell_truediv r64 v 1000) (vals t)\<rparr>"
    from h have "truediv L (ASeries t) 1000 = Inr (ASeries ?m)"
      by (simp add: pd_truediv_def)
    from gen [OF this] obtain res st' where p: "plot_world_population L df st = (res, st')"
      and n: "columns_named ?mi (objs st' df) \<noteq> []"
      and v: "\<forall>p \<in> set (columns_named ?mi (objs st' df)). snd p = ?m"
      by blast
    from v have "\<forall>p \<in> set (columns_named ?mi (objs st' df)).
                   vals (snd p) = map (\<lambda>v. cell_truediv r64 v 1000) (vals t)"
      by simp
    with p n e show ?thesis
      by (intro exI [of _ res] exI [of _ st']) simp
  qed
  from gen mod show ?thesis by blast
qed

text \<open>The theorem on the column \<open>[1000, 2000]\<close>: the derived column is \<open>[1.0, 2.0]\<close>.\<close>

theorem plot_world_population_millions_witness:
  "getitem (objs (world_of demo_table) 0) ''Year''
       = Inr (ASeries \<lparr>dtype = SInt W64, vals = [PyInt 1950, PyInt 1951]\<rparr>)
   \<and> astype_str demo_library (ASeries \<lparr>dtype = SInt W64, vals = [PyInt 1950, PyInt 1951]\<rparr>)
       = Inr (ASeries \<lparr>dtype = ObjectDtype, vals = [PyStr ''1950'', PyStr ''1951'']\<rparr>)
   \<and> to_datetime demo_library (ASeries \<lparr>dtype = ObjectDtype, vals = [PyStr ''1950'', PyStr ''1951'']\<rparr>)
       = Inr (ASeries \<lparr>dtype = Datetime64, vals = [PyStr ''1950'', PyStr ''1951'']\<rparr>)
   \<and> columns_named ''World Population (in thousands)'' (objs (world_of demo_table) 0)
       = [(''World Population (in thousands)'',
           \<lparr>dtype = SInt W64, vals = [PyInt 1000, PyInt 2000]\<rparr>)]
   \<and> truediv demo_library = pd_truediv (\<lambda>x. x) unsupported
   \<and> holds_numbers \<lparr>dtype = SInt W64, vals = [PyInt 1000, PyInt 2000]\<rparr>
   \<and> (\<exists>res st'. plot_world_population demo_library 0 (world_of demo_table) = (res, st')
         \<and> columns_named ''World Population (in millions)'' (objs st' 0) \<noteq> []
         \<and> (\<forall>p \<in> set (columns_named ''World Population (in millions)'' (objs st' 0)).
               vals (snd p) = [PyFloat 1, PyFloat 2]))"
proof -
  let ?w = "world_of demo_table"
  let ?y = "\<lparr>dtype = SInt W64, vals = [PyInt 1950, PyInt 1951]\<rparr>"
  let ?s = "\<lparr>dtype = ObjectDtype, vals = [PyStr ''1950'', PyStr ''1951'']\<rparr>"
  let ?d = "\<lparr>dtype = Datetime64, vals = [PyStr ''1950'', PyStr ''1951'']\<rparr>"
  let ?t = "\<lparr>dtype = SInt W64, vals = [PyInt 1000, PyInt 2000]\<rparr>"
  have o: "objs ?w 0 = demo_table"
    by (simp add: world_of_def world0_def)
  have 1: "truediv demo_library = pd_truediv (\<lambda>x. x) unsupported"
    by (simp add: demo_library_def)
  have 2: "getitem (objs ?w 0) ''Year'' = Inr (ASeries ?y)"
    unfolding o by (simp add: getitem_def demo_table_def)
  have 3: "astype_str demo_library (ASeries ?y) = Inr (ASeries ?s)"
    by code_simp
  have 4: "to_datetime demo_library (ASeries ?s) = Inr (ASeries ?d)"
    by (simp add: demo_library_def demo_to_datetime_def)
  have 5: "columns_named ''World Population (in thousands)'' (objs ?w 0)
             = [(''World Population (in thousands)'', ?t)]"
    unfolding o columns_named_def by (simp add: demo_table_def)
  have 6: "holds_numbers ?t"
    by (simp add: holds_numbers_def int_where_def sint_range_def width_bits_def)
  from plot_world_population_millions [OF 2 3 4 5, of "\<lambda>x. x" unsupported] 1 6
  obtain res st' where p: "plot_world_population demo_library 0 ?w = (res, st')"
    and n: "columns_named ''World Population (in millions)'' (objs st' 0) \<noteq> []"
    and e: "(\<forall>i. \<bar>i\<bar> \<le> 2 ^ 53 \<longrightarrow> (\<lambda>x. x) (real_of_int i) = real_of_int i)
              \<and> vals ?t = [PyInt 1000, PyInt 2000]
            \<longrightarrow> (\<forall>p \<in> set (columns_named ''World Population (in millions)'' (objs st' 0)).
                   vals (snd p) = [PyFloat 1, PyFloat 2])"
    by blast
  from e have "\<forall>p \<in> set (columns_named ''World Population (in millions)'' (objs st' 0)).
                 vals (snd p) = [PyFloat 1, PyFloat 2]"
    by simp
  with p n have "\<exists>res st'. plot_world_population demo_library 0 ?w = (res, st')
         \<and> columns_named ''World Population (in millions)'' (objs st' 0) \<noteq> []
         \<and> (\<forall>p \<in> set (columns_named ''World Population (in millions)'' (objs st' 0)).
               vals (snd p) = [PyFloat 1, PyFloat 2])"
    by blast
  with 1 2 3 4 5 6 show ?thesis by blast
qed

text \<open>
  Claim C2 as stated (for every dataset with a thousands column) fails on a dataset
  that has no \<open>Year\<close> column: the first statement raises \<open>KeyError\<close> and no column is
  derived.
\<close>

theorem plot_world_population_needs_year:
  "fst (plot_world_population demo_library 0 (world_of lonely_table)) = Inl (PyExc ''KeyError'' ''Year'')
   \<and> columns_named ''World Population (in thousands)'' (objs (world_of lonely_table) 0)
       = [(''World Population (in thousands)'', \<lparr>dtype = SInt W64, vals = [PyInt 1000, PyInt 2000]\<rparr>)]
   \<and> columns_named ''World Population (in millions)''
        (objs (snd (plot_world_population demo_library 0 (world_of lonely_table))) 0) = []"
  by code_simp

section \<open>apply\_inferred\_types: coercing twice\<close>

subsection \<open>Facts about \<open>infer_objects\<close>\<close>

lemma mixed_kind_range: "mixed_kind xs = ''mixed-integer'' \<or> mixed_kind xs = ''mixed''"
  by (simp add: mixed_kind_def)

lemma infer_objects_integer:
  assumes "infer_objects xs = ''integer''"
  shows "\<forall>v \<in> set xs. is_int v \<or> isna v"
proof -
  from assms have "list_all (\<lambda>y. is_int y \<or> isna y) xs"
    using mixed_kind_range [of xs]
    by (auto simp: infer_objects_def split: list.splits if_splits)
  then show ?thesis
    by (simp add: list_all_iff)
qed

lemma infer_objects_floating:
  assumes "infer_objects xs = ''floating''"
  shows "list_all (\<lambda>y. is_float y \<or> y = PyNaN) xs \<and> list_ex is_float xs"
proof -
  from assms obtain v rest where f: "filter (\<lambda>v. \<not> isna v) xs = v # rest"
    and v: "is_float v" and a: "list_all (\<lambda>y. is_float y \<or> y = PyNaN) xs"
    using mixed_kind_range [of xs]
    by (auto simp: infer_objects_def split: list.splits if_splits)
  from f have "v \<in> set xs"
    by (metis filter_is_subset list.set_intros(1) subsetD)
  with v a show ?thesis
    by (auto simp: list_ex_iff)
qed

lemma infer_objects_text:
  assumes "list_all is_str xs"
  shows "infer_objects xs = (if xs = [] then ''empty'' else ''string'')"
proof -
  have n: "\<not> isna v" if "is_str v" for v
    using that by (auto simp: is_str_def isna_def split: pyobj.splits)
  with assms have f: "filter (\<lambda>v. \<not> isna v) xs = xs"
    by (auto simp: list_all_iff filter_id_conv)
  have k: "\<not> is_int v \<and> \<not> is_bool v \<and> \<not> is_float v" if "is_str v" for v
    using that by (auto simp: is_str_def is_int_def is_bool_def is_float_def split: pyobj.splits)
  from assms have a: "list_all (\<lambda>y. is_str y \<or> isna y) xs"
    by (simp add: list_all_iff)
  show ?thesis
  proof (cases xs)
    case Nil
    then show ?thesis by (simp add: infer_objects_def)
  next
    case (Cons v rest)
    with assms have "is_str v" by simp
    with k [of v] a f Cons show ?thesis
      by (simp add: infer_objects_def)
  qed
qed

subsection \<open>Facts about \<open>to_numeric\<close>\<close>

lemma those_map_Some: "those xs = Some ys \<Longrightarrow> xs = map Some ys"
proof (induction xs arbitrary: ys)
  case Nil
  then show ?case by simp
next
  case (Cons x xs)
  then show ?case
    by (cases x; cases "those xs") auto
qed

lemma those_same: "\<forall>x \<in> set xs. f x = Some x \<Longrightarrow> those (map f xs) = Some xs"
  by (induction xs) simp_all

lemma as_numeric_typed: "dtype s \<noteq> ObjectDtype \<Longrightarrow> as_numeric f64 s = Inr s"
  by (simp add: as_numeric_def)

lemma as_numeric_cases:
  assumes "as_numeric f64 s = Inr a"
  obtains (same) "a = s"
  | (i64) "a = \<lparr>dtype = SInt W64, vals = vals s\<rparr>"
  | (u64) "a = \<lparr>dtype = UInt W64, vals = vals s\<rparr>"
  | (f64) floats where "those (map (to_float f64) (vals s)) = Some floats"
      and "a = \<lparr>dtype = Float64, vals = floats\<rparr>"
  using assms
  by (auto simp: as_numeric_def Let_def split: if_splits option.splits)

lemma as_numeric_floats:
  assumes "dtype s = ObjectDtype"
    and "list_all (\<lambda>y. is_float y \<or> y = PyNaN) (vals s)" and "list_ex is_float (vals s)"
  shows "as_numeric f64 s = Inr \<lparr>dtype = Float64, vals = vals s\<rparr>"
proof -
  have "\<forall>v \<in> set (vals s). to_float f64 v = Some v"
    using assms(2) by (auto simp: list_all_iff to_float_def is_float_def split: pyobj.splits)
  then have t: "those (map (to_float f64) (vals s)) = Some (vals s)"
    by (rule those_same)
  have "\<not> int_where P v" if "v \<in> set (vals s)" for P v
    using assms(2) that
    by (auto simp: list_all_iff int_where_def is_float_def split: pyobj.splits)
  then have n: "\<not> list_ex (int_where P) (vals s)" for P
    by (simp add: list_ex_iff)
  show ?thesis
    using assms(1,3) t n by (simp add: as_numeric_def)
qed

lemma series_kind_typed:
  "series_kind \<lparr>dtype = SInt w, vals = xs\<rparr> = ''integer''"
  "series_kind \<lparr>dtype = UInt w, vals = xs\<rparr> = ''integer''"
  "series_kind \<lparr>dtype = Float32, vals = xs\<rparr> = ''floating''"
  "series_kind \<lparr>dtype = Float64, vals = xs\<rparr> = ''floating''"
  by (simp_all add: series_kind_def)

subsection \<open>Coercing a coerced column\<close>

lemma to_int_idem: "to_int (to_int v) = to_int v"
  by (simp add: to_int_def split: pyobj.splits)

lemma vals_downcast_integer:
  "vals (downcast_integer a) = vals a \<or> vals (downcast_integer a) = map to_int (vals a)"
  by (simp del: find.simps add: downcast_integer_def split: option.splits)

lemma downcast_integer_cases:
  obtains (same) "downcast_integer a = a"
  | (narrowed) w where "downcast_integer a = \<lparr>dtype = SInt w, vals = map to_int (vals a)\<rparr>"
proof (cases "find (\<lambda>w. width_bits w \<le> dtype_bits (dtype a) \<and> list_all (fits w) (vals a))
                [W8, W16, W32, W64]")
  case None
  then have "downcast_integer a = a"
    unfolding downcast_integer_def by (simp only: option.case)
  then show ?thesis by (rule same)
next
  case (Some w)
  then have "downcast_integer a = \<lparr>dtype = SInt w, vals = map to_int (vals a)\<rparr>"
    unfolding downcast_integer_def by (simp only: option.case)
  then show ?thesis by (rule narrowed)
qed

lemma downcast_float_cases:
  obtains (same) "downcast_float f32 a = a"
  | (narrowed) "list_all (close32 f32) (vals a)"
      and "downcast_float f32 a = \<lparr>dtype = Float32, vals = map (round32 f32) (vals a)\<rparr>"
proof (cases "dtype a = Float64 \<and> list_all (close32 f32) (vals a)")
  case True
  then have "downcast_float f32 a = \<lparr>dtype = Float32, vals = map (round32 f32) (vals a)\<rparr>"
    by (simp add: downcast_float_def)
  with True show ?thesis by (intro narrowed) simp_all
next
  case False
  then have "downcast_float f32 a = a"
    unfolding downcast_float_def by (simp only: if_False)
  then show ?thesis by (rule same)
qed

lemma coerce_int64:
  "pd_coerce_series f32 f64 fr orp \<lparr>dtype = SInt w, vals = xs\<rparr>
     = downcast_integer \<lparr>dtype = SInt w, vals = xs\<rparr>"
  "pd_coerce_series f32 f64 fr orp \<lparr>dtype = UInt w, vals = xs\<rparr>
     = downcast_integer \<lparr>dtype = UInt w, vals = xs\<rparr>"
  by (simp_all add: pd_coerce_series_def series_kind_typed as_numeric_typed downcast_def)

lemma coerce_float64:
  "pd_coerce_series f32 f64 fr orp \<lparr>dtype = Float64, vals = xs\<rparr>
     = downcast_float f32 \<lparr>dtype = Float64, vals = xs\<rparr>"
  by (simp add: pd_coerce_series_def series_kind_typed as_numeric_typed downcast_def)

lemma coerce_float32:
  "pd_coerce_series f32 f64 fr orp \<lparr>dtype = Float32, vals = xs\<rparr> = \<lparr>dtype = Float32, vals = xs\<rparr>"
  by (simp add: pd_coerce_series_def series_kind_typed as_numeric_typed downcast_def
        downcast_float_def)

text \<open>A column narrowed to a signed integer type is left with the same values by a
  second coercion.\<close>

lemma coerce_narrowed:
  "vals (pd_coerce_series f32 f64 fr orp \<lparr>dtype = SInt w, vals = map to_int xs\<rparr>) = map to_int xs"
proof -
  let ?r = "\<lparr>dtype = SInt w, vals = map to_int xs\<rparr>"
  have "pd_coerce_series f32 f64 fr orp ?r = downcast_integer ?r"
    by (rule coerce_int64)
  with vals_downcast_integer [of ?r] show ?thesis
    by (auto simp: to_int_idem)
qed

text \<open>Whole numbers that stay within \<open>5e-4\<close> of themselves under rounding to float32
  are not changed by it, when the rounding maps whole numbers to whole numbers.\<close>

lemma close32_whole:
  fixes f32 :: "real \<Rightarrow> real"
  assumes "\<forall>x \<in> \<int>. f32 x \<in> \<int>" and "x \<in> \<int>" and "\<bar>f32 x - x\<bar> \<le> 5 / 10 ^ 4"
  shows "f32 x = x"
proof -
  from assms(1,2) have "f32 x - x \<in> \<int>" by simp
  then obtain k :: int where k: "f32 x - x = of_int k" by (auto elim: Ints_cases)
  with assms(3) have "\<bar>real_of_int k\<bar> < 1" by simp
  then have "k = 0" by linarith
  with k show ?thesis by simp
qed

lemma round32_whole:
  fixes f32 :: "real \<Rightarrow> real"
  assumes "\<forall>x \<in> \<int>. f32 x \<in> \<int>" and "\<forall>i x. f64 i = Some x \<longrightarrow> x \<in> \<int>"
    and "is_int u \<or> isna u" and "to_float f64 u = Some y" and "close32 f32 y"
  shows "round32 f32 y = y"
proof (cases u)
  case (PyInt i)
  with assms(4) obtain x where x: "f64 i = Some x" "y = PyFloat x"
    by (auto simp: to_float_def)
  with assms(2) have "x \<in> \<int>" by blast
  with close32_whole [OF assms(1), of x] assms(5) x show ?thesis
    by (simp add: close32_def round32_def)
qed (use assms(3,4) in \<open>auto simp: is_int_def isna_def to_float_def round32_def\<close>)

lemma py_str_text: "py_str fr orp (PyStr x) = x"
  by (simp add: py_str_def)

lemma astype_twice:
  "vals (series_astype_str fr orp (series_astype_str fr orp s)) = vals (series_astype_str fr orp s)"
  by (simp add: series_astype_str_def py_str_text)

lemma coerce_text:
  "vals (pd_coerce_series f32 f64 fr orp (series_astype_str fr orp s))
     = vals (series_astype_str fr orp s)"
proof -
  let ?r = "series_astype_str fr orp s"
  have t: "list_all is_str (vals ?r)"
    by (simp add: series_astype_str_def list_all_iff is_str_def)
  have "series_kind ?r = infer_objects (vals ?r)"
    by (simp add: series_kind_def series_astype_str_def)
  with infer_objects_text [OF t]
  have "series_kind ?r = ''empty'' \<or> series_kind ?r = ''string''"
    by simp
  then show ?thesis
    by (auto simp: pd_coerce_series_def astype_twice)
qed

text \<open>Coercing a column that has been coerced leaves its values as they are.\<close>

lemma coerce_series_twice:
  fixes f32 :: "real \<Rightarrow> real"
  assumes w32: "\<forall>x \<in> \<int>. f32 x \<in> \<int>" and w64: "\<forall>i x. f64 i = Some x \<longrightarrow> x \<in> \<int>"
  shows "vals (pd_coerce_series f32 f64 fr orp (pd_coerce_series f32 f64 fr orp s))
         = vals (pd_coerce_series f32 f64 fr orp s)"
    (is "vals (?co (?co s)) = vals (?co s)")
proof -
  consider (integer) "series_kind s = ''integer''"
    | (floating) "series_kind s = ''floating''"
    | (str) "series_kind s = ''string''"
    | (other) "series_kind s \<noteq> ''integer''" "series_kind s \<noteq> ''floating''"
        "series_kind s \<noteq> ''string''"
    by blast
  then show ?thesis
  proof cases
    case other
    then have "?co s = s" by (simp add: pd_coerce_series_def)
    then show ?thesis by simp
  next
    case str
    then have "?co s = series_astype_str fr orp s" by (simp add: pd_coerce_series_def)
    then show ?thesis by (simp add: coerce_text)
  next
    case integer
    show ?thesis
    proof (cases "as_numeric f64 s")
      case (Inl e)
      with integer have "?co s = s" by (simp add: pd_coerce_series_def)
      then show ?thesis by simp
    next
      case (Inr a)
      with integer have c: "?co s = downcast f32 ''integer'' a"
        by (simp add: pd_coerce_series_def)
      from Inr show ?thesis
      proof (cases rule: as_numeric_cases)
        case same
        show ?thesis
        proof (cases "dtype a = ObjectDtype")
          case True
          with c same have "?co s = s" by (simp add: downcast_def)
          then show ?thesis by simp
        next
          case False
          with c have d: "?co s = downcast_integer a" by (simp add: downcast_def)
          show ?thesis
          proof (cases a rule: downcast_integer_cases)
            case (narrowed w)
            with d show ?thesis by (simp add: coerce_narrowed)
          next
            case same': same
            with d same have "?co s = s" by simp
            then show ?thesis by simp
          qed
        qed
      next
        case i64
        with c have d: "?co s = downcast_integer a" by (simp add: downcast_def)
        show ?thesis
        proof (cases a rule: downcast_integer_cases)
          case (narrowed w)
          with d show ?thesis by (simp add: coerce_narrowed)
        next
          case same
          with d have ca: "?co s = a" by simp
          from i64 same have "?co a = a" by (simp add: coerce_int64)
          with ca show ?thesis by simp
        qed
      next
        case u64
        with c have d: "?co s = downcast_integer a" by (simp add: downcast_def)
        show ?thesis
        proof (cases a rule: downcast_integer_cases)
          case (narrowed w)
          with d show ?thesis by (simp add: coerce_narrowed)
        next
          case same
          with d have ca: "?co s = a" by simp
          from u64 same have "?co a = a" by (simp add: coerce_int64)
          with ca show ?thesis by simp
        qed
      next
        case (f64 floats)
        with c have d: "?co s = downcast_integer a" by (simp add: downcast_def)
        show ?thesis
        proof (cases a rule: downcast_integer_cases)
          case (narrowed w)
          with d show ?thesis by (simp add: coerce_narrowed)
        next
          case same
          with d have ca: "?co s = a" by simp
          from f64 have cf: "?co a = downcast_float f32 a" by (simp add: coerce_float64)
          show ?thesis
          proof (cases a rule: downcast_float_cases [of f32])
            case same
            with cf ca show ?thesis by simp
          next
            case narrowed
            have na: "\<forall>v \<in> set (vals s). is_int v \<or> isna v"
            proof (cases "dtype s = ObjectDtype")
              case True
              with integer have "infer_objects (vals s) = ''integer''"
                by (simp add: series_kind_def)
              then show ?thesis by (rule infer_objects_integer)
            next
              case False
              with Inr have "a = s" by (simp add: as_numeric_typed)
              with f64(2) have "series_kind s = ''floating''"
                by (simp add: series_kind_def)
              with integer show ?thesis by simp
            qed
            from f64(1) have m: "map (to_float f64) (vals s) = map Some floats"
              by (rule those_map_Some)
            have "round32 f32 y = y" if "y \<in> set floats" for y
            proof -
              from that m have "Some y \<in> set (map (to_float f64) (vals s))" by simp
              then obtain u where u: "u \<in> set (vals s)" "to_float f64 u = Some y" by auto
              from narrowed(1) f64(2) that have "close32 f32 y"
                by (simp add: list_all_iff)
              with na u show ?thesis
                using round32_whole [OF w32 w64, of u y] by blast
            qed
            then have "map (round32 f32) floats = floats"
              by (simp add: map_idI)
            with narrowed(2) f64(2) have "vals (downcast_float f32 a) = vals a"
              by simp
            with cf ca show ?thesis by simp
          qed
        qed
      qed
    qed
  next
    case floating
    show ?thesis
    proof (cases "as_numeric f64 s")
      case (Inl e)
      with floating have "?co s = s" by (simp add: pd_coerce_series_def)
      then show ?thesis by simp
    next
      case (Inr a)
      have k: "(dtype a = Float32 \<or> (\<exists>xs. a = \<lparr>dtype = Float64, vals = xs\<rparr>))"
      proof (cases "dtype s = ObjectDtype")
        case True
        with floating have "infer_objects (vals s) = ''floating''"
          by (simp add: series_kind_def)
        from infer_objects_floating [OF this] True
        have "as_numeric f64 s = Inr \<lparr>dtype = Float64, vals = vals s\<rparr>"
          by (simp add: as_numeric_floats)
        with Inr have "a = \<lparr>dtype = Float64, vals = vals s\<rparr>" by simp
        then show ?thesis by blast
      next
        case False
        with floating have "dtype s = Float32 \<or> dtype s = Float64"
          by (auto simp: series_kind_def split: dtype.splits)
        moreover from False Inr have "a = s" by (simp add: as_numeric_typed)
        ultimately show ?thesis
          by (cases s) auto
      qed
      then have "dtype a \<noteq> ObjectDtype" by auto
      with Inr floating have c: "?co s = downcast_float f32 a"
        by (simp add: pd_coerce_series_def downcast_def)
      show ?thesis
      proof (cases a rule: downcast_float_cases [of f32])
        case narrowed
        with c show ?thesis by (simp add: coerce_float32)
      next
        case same
        with c have ca: "?co s = a" by simp
        from k show ?thesis
        proof
          assume "dtype a = Float32"
          then have "?co a = a"
            using coerce_float32 [of f32 f64 fr orp "vals a"] by (cases a) simp
          with ca show ?thesis by simp
        next
          assume "\<exists>xs. a = \<lparr>dtype = Float64, vals = xs\<rparr>"
          then obtain xs where x: "a = \<lparr>dtype = Float64, vals = xs\<rparr>" by blast
          then have "?co a = downcast_float f32 a" by (simp add: coerce_float64)
          with same ca show ?thesis by simp
        qed
      qed
    qed
  qed
qed

subsection \<open>One iteration, on the columns of one name\<close>

lemma replace_named_all:
  "\<forall>p \<in> set g. fst p = c \<Longrightarrow>
   replace_named c (map (\<lambda>q. F (snd q)) g) g = map (\<lambda>q. (fst q, F (snd q))) g"
  by (induction g) auto

lemma columns_named_fst: "p \<in> set (columns_named c d) \<Longrightarrow> fst p = c"
  by (simp add: columns_named_def)

lemma frame_of: "d\<lparr>columns := g\<rparr> = \<lparr>index_len = index_len d, columns = g\<rparr>"
  by (cases d) simp

lemma pd_coerce_column_group:
  assumes "infer_dtype L = pd_infer_dtype fk"
    and "to_numeric L = pd_to_numeric f32 f64 rest"
    and "astype_str L = pd_astype_str fr orp"
  shows "(case coerce_column L d c of Inr d' \<Rightarrow> columns_named c d' | Inl e \<Rightarrow> columns_named c d)
         = pd_coerce_group fk f32 f64 fr orp (index_len d) (columns_named c d)"
proof (cases "columns_named c d")
  case Nil
  then have "getitem d c = Inl (PyExc ''KeyError'' c)"
    by (simp add: getitem_def columns_named_def)
  then have "coerce_column L d c = Inl (PyExc ''KeyError'' c)"
    by (simp add: coerce_column_def seq_def)
  with Nil show ?thesis by (simp add: pd_coerce_group_def)
next
  case (Cons p ps)
  then have in_d: "c \<in> fst ` set (columns d)"
    by (simp add: columns_named_present)
  note sg = setitem_group [OF in_d]
  show ?thesis
  proof (cases "ps = []")
    case True
    with Cons have "fst p = c" using columns_named_fst [of p c d] by simp
    with Cons True have g: "columns_named c d = [(c, snd p)]" by (cases p) simp
    then have gi: "getitem d c = Inr (ASeries (snd p))" by (rule getitem_single)
    let ?s = "snd p"
    have set1: "(case setitem d c (ASeries s') of Inr d' \<Rightarrow> columns_named c d'
                 | Inl e \<Rightarrow> columns_named c d) = [(c, s')]" for s'
      using sg [of "ASeries s'"] g
      by (cases "setitem d c (ASeries s')") (simp_all add: set_group_def)
    have inf: "infer_dtype L (ASeries ?s) = Inr (series_kind ?s)"
      using assms(1) by (simp add: pd_infer_dtype_def)
    have "(case coerce_column L d c of Inr d' \<Rightarrow> columns_named c d' | Inl e \<Rightarrow> columns_named c d)
          = [(c, pd_coerce_series f32 f64 fr orp ?s)]"
    proof (cases "as_numeric f64 ?s")
      case (Inl e)
      with assms(2,3) gi inf set1 g show ?thesis
        by (simp add: coerce_column_def seq_def pd_to_numeric_def pd_astype_str_def
              pd_coerce_series_def)
    next
      case (Inr a)
      with assms(2,3) gi inf set1 g show ?thesis
        by (simp add: coerce_column_def seq_def pd_to_numeric_def pd_astype_str_def
              pd_coerce_series_def)
    qed
    with g show ?thesis
      by (simp add: pd_coerce_group_def)
  next
    case False
    let ?g = "columns_named c d"
    let ?F = "series_astype_str fr orp"
    let ?f = "\<lparr>index_len = index_len d, columns = ?g\<rparr>"
    let ?f' = "?f\<lparr>columns := map (\<lambda>q. (fst q, ?F (snd q))) ?g\<rparr>"
    from Cons False have gi: "getitem d c = Inr (AFrame ?f)"
      by (simp add: getitem_def columns_named_def frame_of)
    have inf: "infer_dtype L (AFrame ?f) = fk ?f"
      using assms(1) by (simp add: pd_infer_dtype_def)
    have num: "to_numeric L (AFrame ?f) k
                 = Inl (PyExc ''TypeError'' ''arg must be a list, tuple, 1-d array, or Series'')" for k
      using assms(2) by (simp add: pd_to_numeric_def)
    have ast: "astype_str L (AFrame ?f) = Inr (AFrame ?f')"
      using assms(3) by (simp add: pd_astype_str_def)
    have "\<forall>p \<in> set ?g. fst p = c" by (simp add: columns_named_fst)
    then have "set_group c (AFrame ?f') ?g = Inr (map (\<lambda>q. (fst q, ?F (snd q))) ?g)"
      using replace_named_all [of ?g c ?F]
      by (simp add: set_group_def comp_def)
    with sg [of "AFrame ?f'"]
    have st: "(case setitem d c (AFrame ?f') of Inr d' \<Rightarrow> columns_named c d'
           | Inl e \<Rightarrow> columns_named c d) = map (\<lambda>q. (fst q, ?F (snd q))) ?g"
      by (cases "setitem d c (AFrame ?f')") simp_all
    have "(case coerce_column L d c of Inr d' \<Rightarrow> columns_named c d' | Inl e \<Rightarrow> columns_named c d)
          = (if fk ?f = Inr ''string'' then map (\<lambda>q. (fst q, ?F (snd q))) ?g else ?g)"
    proof (cases "fk ?f")
      case (Inl e)
      with gi inf show ?thesis
        by (simp add: coerce_column_def seq_def)
    next
      case (Inr t)
      with gi inf num ast st show ?thesis
        by (simp add: coerce_column_def seq_def)
    qed
    with Cons False show ?thesis
      by (simp add: pd_coerce_group_def)
  qed
qed

lemma pd_coerce_iteration_group:
  assumes "infer_dtype L = pd_infer_dtype fk"
    and "to_numeric L = pd_to_numeric f32 f64 rest"
    and "astype_str L = pd_astype_str fr orp"
  shows "columns_named c (objs (coerce_iteration L df c st) df)
         = pd_coerce_group fk f32 f64 fr orp (index_len (objs st df)) (columns_named c (objs st df))"
  using pd_coerce_column_group [OF assms, where d = "objs st df" and c = c]
  by (simp add: objs_coerce_iteration split: sum.splits)

lemma pd_for_columns_group:
  assumes "infer_dtype L = pd_infer_dtype fk"
    and "to_numeric L = pd_to_numeric f32 f64 rest"
    and "astype_str L = pd_astype_str fr orp"
  shows "index_len (objs st df) = n \<Longrightarrow>
         columns_named c (objs (for_columns L df cs st) df)
         = (pd_coerce_group fk f32 f64 fr orp n ^^ count_list cs c) (columns_named c (objs st df))"
proof (induction cs arbitrary: st)
  case Nil
  then show ?case by simp
next
  case (Cons c1 cs)
  have i: "index_len (objs (coerce_iteration L df c1 st) df) = n"
    using Cons.prems by (simp add: coerce_iteration_shape)
  show ?case
  proof (cases "c1 = c")
    case True
    with Cons.IH [OF i] Cons.prems show ?thesis
      by (simp add: pd_coerce_iteration_group [OF assms] funpow_swap1)
  next
    case False
    with Cons.IH [OF i] show ?thesis
      by (simp add: coerce_iteration_other)
  qed
qed

subsection \<open>Two passes\<close>

lemma coerce_group_twice:
  fixes f32 :: "real \<Rightarrow> real"
  assumes "\<forall>x \<in> \<int>. f32 x \<in> \<int>" and "\<forall>i x. f64 i = Some x \<longrightarrow> x \<in> \<int>"
  shows "group_values (pd_coerce_group fk f32 f64 fr orp n (pd_coerce_group fk f32 f64 fr orp n g))
         = group_values (pd_coerce_group fk f32 f64 fr orp n g)"
    (is "group_values (?G (?G g)) = group_values (?G g)")
proof (cases g)
  case Nil
  then show ?thesis by (simp add: pd_coerce_group_def)
next
  case (Cons p ps)
  show ?thesis
  proof (cases "ps = []")
    case True
    with Cons show ?thesis
      by (simp add: pd_coerce_group_def group_values_def coerce_series_twice [OF assms])
  next
    case False
    let ?A = "map (\<lambda>q. (fst q, series_astype_str fr orp (snd q)))"
    from Cons False have two: "\<exists>a b bs. ?A g = a # b # bs"
      by (cases ps) auto
    show ?thesis
    proof (cases "fk \<lparr>index_len = n, columns = g\<rparr> = Inr ''string''")
      case True
      with Cons False have 1: "?G g = ?A g"
        by (simp add: pd_coerce_group_def)
      from two have "?G (?A g) = ?A (?A g) \<or> ?G (?A g) = ?A g"
        by (auto simp: pd_coerce_group_def)
      moreover have "group_values (?A (?A g)) = group_values (?A g)"
        by (simp add: group_values_def astype_twice)
      ultimately show ?thesis
        using 1 by auto
    next
      case no: False
      with Cons False have "?G g = g"
        by (simp add: pd_coerce_group_def)
      then show ?thesis by simp
    qed
  qed
qed

lemma coerce_group_again:
  fixes f32 :: "real \<Rightarrow> real"
  assumes "\<forall>x \<in> \<int>. f32 x \<in> \<int>" and "\<forall>i x. f64 i = Some x \<longrightarrow> x \<in> \<int>"
  shows "group_values ((pd_coerce_group fk f32 f64 fr orp n ^^ Suc k) g)
         = group_values (pd_coerce_group fk f32 f64 fr orp n g)"
    (is "group_values ((?G ^^ Suc k) g) = group_values (?G g)")
proof (induction k)
  case 0
  then show ?case by simp
next
  case (Suc k)
  have "group_values ((?G ^^ Suc (Suc k)) g) = group_values (?G (?G ((?G ^^ k) g)))"
    by simp
  also have "\<dots> = group_values (?G ((?G ^^ k) g))"
    by (rule coerce_group_twice [OF assms])
  also have "\<dots> = group_values ((?G ^^ Suc k) g)"
    by simp
  finally show ?case using Suc by simp
qed

lemma coerce_group_doubled:
  fixes f32 :: "real \<Rightarrow> real"
  assumes "\<forall>x \<in> \<int>. f32 x \<in> \<int>" and "\<forall>i x. f64 i = Some x \<longrightarrow> x \<in> \<int>"
  shows "group_values ((pd_coerce_group fk f32 f64 fr orp n ^^ k)
                         ((pd_coerce_group fk f32 f64 fr orp n ^^ k) g))
         = group_values ((pd_coerce_group fk f32 f64 fr orp n ^^ k) g)"
    (is "group_values ((?G ^^ k) ((?G ^^ k) g)) = group_values ((?G ^^ k) g)")
proof (cases k)
  case 0
  then show ?thesis by simp
next
  case (Suc m)
  have "(?G ^^ k) ((?G ^^ k) g) = (?G ^^ (k + k)) g"
    by (simp only: funpow_add comp_apply)
  moreover have "k + k = Suc (m + k)" using Suc by simp
  ultimately have "(?G ^^ k) ((?G ^^ k) g) = (?G ^^ Suc (m + k)) g"
    by (simp only:)
  then show ?thesis
    using coerce_group_again [OF assms, where fk = fk and fr = fr and orp = orp and n = n
            and k = "m + k" and g = g]
      coerce_group_again [OF assms, where fk = fk and fr = fr and orp = orp and n = n
            and k = m and g = g] Suc
    by simp
qed

text \<open>Two lists of named columns with the same names in the same order have the same
  values when, name by name, the columns of that name do.\<close>

lemma pairs_by_key:
  assumes "map fst xs = map fst ys"
    and "\<forall>c. filter (\<lambda>p. fst p = c) xs = filter (\<lambda>p. fst p = c) ys"
  shows "xs = ys"
  using assms
proof (induction xs arbitrary: ys)
  case Nil
  then show ?case by simp
next
  case (Cons x xs)
  then obtain y ys' where y: "ys = y # ys'" "fst x = fst y" "map fst xs = map fst ys'"
    by (cases ys) auto
  from Cons.prems(2) y have h: "filter (\<lambda>p. fst p = fst x) (x # xs) = filter (\<lambda>p. fst p = fst x) (y # ys')"
    by blast
  with y have xy: "x = y" by simp
  have "filter (\<lambda>p. fst p = c) xs = filter (\<lambda>p. fst p = c) ys'" for c
    using Cons.prems(2) [rule_format, of c] y xy by (cases "fst y = c") simp_all
  with Cons.IH [OF y(3)] have "xs = ys'" by blast
  with xy y show ?case by simp
qed

lemma column_values_by_group:
  assumes "map fst (columns d1) = map fst (columns d2)"
    and "\<forall>c. group_values (columns_named c d1) = group_values (columns_named c d2)"
  shows "column_values d1 = column_values d2"
proof -
  have f: "group_values (columns_named c d) = filter (\<lambda>p. fst p = c) (column_values d)" for c d
    by (simp add: group_values_def columns_named_def column_values_def filter_map comp_def)
  have m: "map fst (column_values d) = map fst (columns d)" for d
    by (simp add: column_values_def comp_def)
  from assms show ?thesis
    unfolding f by (intro pairs_by_key) (simp_all add: m)
qed

text \<open>
  Claim C4. Coercion is idempotent on values: for every dataset, applying
  \<open>apply_inferred_types\<close> twice leaves the same column values as applying it once.
  This is proved for the model above of pandas' \<open>infer_dtype\<close>, \<open>to_numeric\<close> and
  \<open>astype(str)\<close> on a Series, for whatever \<open>infer_dtype\<close> answers on the columns of a
  repeated name, for every rounding \<open>f32\<close> to float32 that yields whole numbers on
  whole numbers, and for every conversion \<open>f64\<close> of integers to float64 that yields
  whole numbers where it has a value. The dtype may still change on the second pass:
  an object column of integers with a missing value becomes float64 first and float32
  next, with the same values.
\<close>

theorem apply_inferred_types_idempotent:
  fixes f32 :: "real \<Rightarrow> real"
  assumes "infer_dtype L = pd_infer_dtype frame_kind"
    and "to_numeric L = pd_to_numeric f32 f64 rest"
    and "astype_str L = pd_astype_str float_repr other_repr"
    and "\<forall>x \<in> \<int>. f32 x \<in> \<int>"
    and "\<forall>i x. f64 i = Some x \<longrightarrow> x \<in> \<int>"
  shows "\<exists>st1 st2. apply_inferred_types L df st = (Inr df, st1)
     \<and> apply_inferred_types L df st1 = (Inr df, st2)
     \<and> column_values (objs st2 df) = column_values (objs st1 df)
     \<and> index_len (objs st2 df) = index_len (objs st1 df)"
proof -
  let ?cs = "map fst (columns (objs st df))"
  let ?n = "index_len (objs st df)"
  let ?st1 = "for_columns L df ?cs st"
  let ?st2 = "for_columns L df ?cs ?st1"
  note lib = assms(1-3)
  have n1: "map fst (columns (objs ?st1 df)) = ?cs"
    by (simp add: for_columns_shape)
  have i1: "index_len (objs ?st1 df) = ?n"
    by (simp add: for_columns_shape)
  have 1: "apply_inferred_types L df st = (Inr df, ?st1)"
    by (simp add: apply_inferred_types_def)
  have 2: "apply_inferred_types L df ?st1 = (Inr df, ?st2)"
    by (simp add: apply_inferred_types_def n1)
  have n2: "map fst (columns (objs ?st2 df)) = map fst (columns (objs ?st1 df))"
    by (simp add: for_columns_shape)
  have "group_values (columns_named c (objs ?st2 df))
        = group_values (columns_named c (objs ?st1 df))" for c
  proof -
    let ?G = "pd_coerce_group frame_kind f32 f64 float_repr other_repr ?n"
    let ?k = "count_list ?cs c"
    have a: "columns_named c (objs ?st1 df) = (?G ^^ ?k) (columns_named c (objs st df))"
      by (rule pd_for_columns_group [OF lib refl])
    have b: "columns_named c (objs ?st2 df) = (?G ^^ ?k) (columns_named c (objs ?st1 df))"
      by (rule pd_for_columns_group [OF lib i1])
    show ?thesis
      unfolding b unfolding a
      by (rule coerce_group_doubled [OF assms(4,5)])
  qed
  with n2 have 3: "column_values (objs ?st2 df) = column_values (objs ?st1 df)"
    by (intro column_values_by_group) simp_all
  have 4: "index_len (objs ?st2 df) = index_len (objs ?st1 df)"
    by (simp add: for_columns_shape)
  from 1 2 3 4 show ?thesis by blast
qed

text \<open>The theorem on a table with an object column of integers and \<open>None\<close>, a text
  column with \<open>None\<close>, an int64 column, an object column of a float and \<open>None\<close>, and
  an object column of an integer above the int64 range and a negative one: the last two
  are left as they are.\<close>

theorem apply_inferred_types_idempotent_witness:
  "infer_dtype demo_library = pd_infer_dtype labels_kind
   \<and> to_numeric demo_library = pd_to_numeric (\<lambda>x. x) (\<lambda>i. Some (real_of_int i)) unsupported
   \<and> astype_str demo_library = pd_astype_str (\<lambda>x. ''float'') (\<lambda>k. ''object'')
   \<and> (\<exists>st1 st2. apply_inferred_types demo_library 0 (world_of gappy_table) = (Inr 0, st1)
         \<and> apply_inferred_types demo_library 0 st1 = (Inr 0, st2)
         \<and> column_values (objs st1 0)
             = [(''n'', [PyFloat 7, PyNaN]), (''t'', [PyStr ''x'', PyStr ''None'']),
                (''k'', [PyInt 1, PyInt 300]), (''f'', [PyFloat (3 / 2), PyNone]),
                (''u'', [PyInt (2 ^ 63), PyInt (- 1)])]
         \<and> column_values (objs st2 0)
             = [(''n'', [PyFloat 7, PyNaN]), (''t'', [PyStr ''x'', PyStr ''None'']),
                (''k'', [PyInt 1, PyInt 300]), (''f'', [PyFloat (3 / 2), PyNone]),
                (''u'', [PyInt (2 ^ 63), PyInt (- 1)])])"
proof -
  let ?w = "world_of gappy_table"
  have l: "infer_dtype demo_library = pd_infer_dtype labels_kind"
    "to_numeric demo_library = pd_to_numeric (\<lambda>x. x) (\<lambda>i. Some (real_of_int i)) unsupported"
    "astype_str demo_library = pd_astype_str (\<lambda>x. ''float'') (\<lambda>k. ''object'')"
    by (simp_all add: demo_library_def)
  have h: "\<forall>x \<in> \<int>. (\<lambda>x::real. x) x \<in> \<int>"
    "\<forall>i x. (\<lambda>i. Some (real_of_int i)) i = Some x \<longrightarrow> x \<in> \<int>"
    by auto
  from apply_inferred_types_idempotent [OF l h, of 0 ?w]
  obtain st1 st2 where 1: "apply_inferred_types demo_library 0 ?w = (Inr 0, st1)"
    and 2: "apply_inferred_types demo_library 0 st1 = (Inr 0, st2)"
    and 3: "column_values (objs st2 0) = column_values (objs st1 0)"
    by blast
  have "column_values (objs (snd (apply_inferred_types demo_library 0 ?w)) 0)
         = [(''n'', [PyFloat 7, PyNaN]), (''t'', [PyStr ''x'', PyStr ''None'']),
            (''k'', [PyInt 1, PyInt 300]), (''f'', [PyFloat (3 / 2), PyNone]),
            (''u'', [PyInt (2 ^ 63), PyInt (- 1)])]"
    by code_simp
  with 1 have 4: "column_values (objs st1 0)
         = [(''n'', [PyFloat 7, PyNaN]), (''t'', [PyStr ''x'', PyStr ''None'']),
            (''k'', [PyInt 1, PyInt 300]), (''f'', [PyFloat (3 / 2), PyNone]),
            (''u'', [PyInt (2 ^ 63), PyInt (- 1)])]"
    by simp
  from 1 2 3 4 l show ?thesis
    by (intro conjI exI [of _ st1] exI [of _ st2]) simp_all
qed

end
